theory Spec2Isabelle
  imports Complex_Main "HOL-Library.AList"
begin

section \<open>Python values and errors\<close>

text \<open>
  Exceptions of the Python source are values of type \<open>error\<close>; a function that may
  raise returns \<open>error + 'a\<close> with \<open>Inl\<close> for the exception.  \<open>ExternalError\<close>
  stands for any exception raised inside an external collaborator (language model,
  vector store, market-data service).
\<close>

datatype error =
    TypeError | KeyError | AttributeError | ValueError | JSONDecodeError | RecursionError
  | OverflowError | ZeroDivisionError | UnicodeEncodeError | ExternalError

text \<open>The values \<open>json.loads\<close> can produce.  Python floats and ints are rationals here.\<close>

datatype json =
    JNull
  | JBool bool
  | JNum rat
  | JStr string
  | JArr "json list"
  | JObj "(string \<times> json) list"

definition bind_err :: "error + 'a \<Rightarrow> ('a \<Rightarrow> error + 'b) \<Rightarrow> error + 'b" where
  "bind_err m f = (case m of Inl e \<Rightarrow> Inl e | Inr x \<Rightarrow> f x)"

subsection \<open>Strings\<close>

text \<open>
  A Python string is a \<open>string\<close>, a list of 8-bit characters; its length and its
  slices count characters.
\<close>

abbreviation nl :: string where "nl \<equiv> [CHR 0x0A]"
abbreviation dquote :: string where "dquote \<equiv> [CHR 0x22]"
abbreviation squote :: string where "squote \<equiv> [CHR 0x27]"

text \<open>Characters for which \<open>str.isspace\<close> holds, within the 8-bit range of \<open>char\<close>.\<close>

definition is_space :: "char \<Rightarrow> bool" where
  "is_space c = (c \<in> set [CHR 0x09, CHR 0x0A, CHR 0x0B, CHR 0x0C, CHR 0x0D,
                          CHR 0x1C, CHR 0x1D, CHR 0x1E, CHR 0x1F, CHR 0x20,
                          CHR 0x85, CHR 0xA0])"

text \<open>\<open>s.split()\<close> without argument: the maximal runs of non-whitespace characters.\<close>

fun split_ws :: "string \<Rightarrow> string \<Rightarrow> string list" where
  "split_ws cur [] = (if cur = [] then [] else [cur])"
| "split_ws cur (c # cs) =
     (if is_space c then (if cur = [] then split_ws [] cs else cur # split_ws [] cs)
      else split_ws (cur @ [c]) cs)"

definition py_split :: "string \<Rightarrow> string list" where
  "py_split s = split_ws [] s"

text \<open>\<open>s.strip()\<close>: leading and trailing whitespace removed.\<close>

definition py_strip :: "string \<Rightarrow> string" where
  "py_strip s = rev (dropWhile is_space (rev (dropWhile is_space s)))"

text \<open>
  \<open>xs[start:]\<close> for an integer \<open>start\<close>: a negative start counts from the end and
  both directions are clamped to the list.
\<close>

definition slice_from :: "int \<Rightarrow> 'a list \<Rightarrow> 'a list" where
  "slice_from start xs =
     (let n = int (length xs);
          i = (if start < 0 then max 0 (n + start) else min start n)
      in drop (nat i) xs)"

section \<open>Retrieval pipeline (core/rag\_pipeline.py)\<close>

type_synonym metadata = "(string \<times> string) list"

record RetrievalResult =
  content :: string
  metadata :: metadata
  score :: rat
  source :: string

text \<open>
  The objects handed to result fusion are duck-typed: the code asks \<open>hasattr\<close> for
  \<open>page_content\<close>, \<open>content\<close> and \<open>metadata\<close> and falls back to \<open>str(result)\<close>.
  An absent attribute is \<open>None\<close>.
\<close>

record document =
  page_content_attr :: "string option"
  content_attr :: "string option"
  metadata_attr :: "metadata option"
  str_repr :: string

text \<open>
  The insertion-ordered dictionary \<open>results_dict\<close>: an association list with unique
  keys, new keys appended at the end.
\<close>

type_synonym results_dict = "(string \<times> RetrievalResult) list"

definition setdefault :: "string \<Rightarrow> RetrievalResult \<Rightarrow> results_dict \<Rightarrow> results_dict" where
  "setdefault k v d = (if map_of d k = None then d @ [(k, v)] else d)"

definition modify :: "string \<Rightarrow> (RetrievalResult \<Rightarrow> RetrievalResult) \<Rightarrow> results_dict \<Rightarrow> results_dict" where
  "modify k f d = map (\<lambda>(k', e). if k' = k then (k', f e) else (k', e)) d"

text \<open>
  The contribution of a rank to the fused score (lines 157 and 173).  Scores are exact
  rationals here, where the code adds floats: sums that are equal here can differ in
  the last digit there, which bears on the order of the merged results and on
  nothing else.
\<close>

definition rrf :: "nat \<Rightarrow> rat" where
  "rrf rank = 1 / (60 + of_nat rank)"

definition dense_content :: "document \<Rightarrow> string" where
  "dense_content r = (case page_content_attr r of Some c \<Rightarrow> c | None \<Rightarrow> str_repr r)"

definition sparse_content :: "document \<Rightarrow> string" where
  "sparse_content r = (case content_attr r of Some c \<Rightarrow> c | None \<Rightarrow> str_repr r)"

definition result_metadata :: "document \<Rightarrow> metadata" where
  "result_metadata r = (case metadata_attr r of Some m \<Rightarrow> m | None \<Rightarrow> [])"

text \<open>One iteration of the loop over the dense leg (lines 144-158).\<close>

definition dense_step :: "results_dict \<Rightarrow> nat \<times> document \<Rightarrow> results_dict" where
  "dense_step d p =
     (let rank = fst p; result = snd p;
          c = dense_content result;
          d1 = setdefault c
                 \<lparr>content = c, metadata = result_metadata result, score = 0, source = ''dense''\<rparr> d
      in modify c (\<lambda>e. e\<lparr>score := score e + rrf rank, source := ''hybrid''\<rparr>) d1)"

text \<open>One iteration of the loop over the sparse leg (lines 161-175).\<close>

definition sparse_step :: "results_dict \<Rightarrow> nat \<times> document \<Rightarrow> results_dict" where
  "sparse_step d p =
     (let rank = fst p; result = snd p;
          c = sparse_content result;
          d1 = setdefault c
                 \<lparr>content = c, metadata = result_metadata result, score = 0, source = ''sparse''\<rparr> d
      in modify c (\<lambda>e. let e' = e\<lparr>score := score e + rrf rank\<rparr>
                        in if source e' = ''dense'' then e'\<lparr>source := ''hybrid''\<rparr> else e') d1)"

text \<open>\<open>enumerate(xs, 1)\<close>.\<close>

definition enumerate1 :: "'a list \<Rightarrow> (nat \<times> 'a) list" where
  "enumerate1 xs = zip [1 ..< Suc (length xs)] xs"

text \<open>
  \<open>sorted(merged, key=lambda x: x.score, reverse=True)\<close>: descending by score, equal
  scores in their original order.
\<close>

definition sort_by_score_desc :: "RetrievalResult list \<Rightarrow> RetrievalResult list" where
  "sort_by_score_desc rs = sort_key (\<lambda>r. - score r) rs"

definition merge_results :: "document list \<Rightarrow> document list \<Rightarrow> RetrievalResult list" where
  "merge_results dense_results sparse_results =
     (let d1 = foldl dense_step [] (enumerate1 dense_results);
          d2 = foldl sparse_step d1 (enumerate1 sparse_results)
      in sort_by_score_desc (map snd d2))"

subsection \<open>Collaborators and pipeline state\<close>

text \<open>
  A loaded cross-encoder is its \<open>predict\<close> method: a batch of (query, passage) pairs
  to a list of scores, or an exception.
\<close>

type_synonym cross_encoder = "(json \<times> string) list \<Rightarrow> error + rat list"

text \<open>
  What the pipeline calls but does not define.  \<open>BM25Okapi corpus\<close> is the lexical
  index; \<open>get_scores\<close> of the library returns one score per corpus document, so the
  index is taken as the function giving the score of document \<open>i\<close> for a tokenised
  query.  \<open>CrossEncoder\<close> is the result of constructing the scoring model.
  \<open>chat\<close> takes the system and the user message and gives
  \<open>response.choices[0].message.content\<close> (which may be \<open>None\<close>) or an exception.
  \<open>json_loads\<close> raises \<open>JSONDecodeError\<close> on text that is not JSON.
\<close>

record env =
  BM25Okapi :: "string list list \<Rightarrow> string list \<Rightarrow> nat \<Rightarrow> rat"
  CrossEncoder :: "error + cross_encoder"
  chat :: "string \<Rightarrow> string \<Rightarrow> error + string option"
  json_loads :: "string \<Rightarrow> error + json"

text \<open>
  The fields of \<open>AdvancedRAGPipeline\<close>.  \<open>reranker_state\<close> is \<open>self._reranker\<close>;
  \<open>predict_calls\<close> is a ghost counter of the calls made to the scoring model.
\<close>

record pipeline =
  vector_store :: "(json \<Rightarrow> int \<Rightarrow> error + document list) option"
  documents :: "document list"
  bm25 :: "(string list \<Rightarrow> nat \<Rightarrow> rat) option"
  reranker_state :: "cross_encoder option"
  predict_calls :: nat

definition tokenize_doc :: "document \<Rightarrow> string list" where
  "tokenize_doc doc =
     (case content_attr doc of Some c \<Rightarrow> py_split c | None \<Rightarrow> py_split (str_repr doc))"

text \<open>
  \<open>__init__\<close> (lines 26-39); a \<open>documents\<close> argument of \<open>None\<close> is the empty list.
  The lexical index is a total function of the corpus here; the library's
  constructor raises \<open>ZeroDivisionError\<close> on a corpus none of whose documents has
  a token.
\<close>

definition init_pipeline ::
  "env \<Rightarrow> (json \<Rightarrow> int \<Rightarrow> error + document list) option \<Rightarrow> document list \<Rightarrow> pipeline" where
  "init_pipeline E vs docs =
     \<lparr>vector_store = vs,
      documents = docs,
      bm25 = (if docs \<noteq> [] then Some (BM25Okapi E (map tokenize_doc docs)) else None),
      reranker_state = None,
      predict_calls = 0\<rparr>"

subsection \<open>Query decomposition\<close>

definition decompose_system :: string where
  "decompose_system = ''You are a query decomposition expert. Break complex queries into 2-3 focused sub-queries. Return ONLY a valid JSON array of strings.''"

definition decompose_user :: "string \<Rightarrow> string" where
  "decompose_user query =
     ''Break this query into 2-3 focused sub-queries:'' @ nl @ nl @ ''Query: '' @ query
     @ nl @ nl @ ''Return as JSON array: ['' @ dquote @ ''sub-query 1'' @ dquote
     @ '', '' @ dquote @ ''sub-query 2'' @ dquote @ '']''"

text \<open>
  \<open>decompose_query\<close> (lines 48-75).  Every exception of the model call, of
  \<open>.strip()\<close> on a \<open>None\<close> content and of the parser ends in one of the two
  \<open>return [query]\<close>; the parsed value is returned as it is when it is a non-empty list.
\<close>

definition decompose_query :: "env \<Rightarrow> string \<Rightarrow> json list" where
  "decompose_query E query =
     (case chat E decompose_system (decompose_user query) of
        Inl e \<Rightarrow> [JStr query]
      | Inr None \<Rightarrow> [JStr query]
      | Inr (Some c) \<Rightarrow>
          (case json_loads E (py_strip c) of
             Inl e \<Rightarrow> [JStr query]
           | Inr (JArr (x # xs)) \<Rightarrow> x # xs
           | Inr _ \<Rightarrow> [JStr query]))"

subsection \<open>Hybrid search\<close>

text \<open>
  \<open>np.argsort\<close>: the indices in ascending order of their scores.  Indices of equal
  scores are taken in ascending order here; the library leaves their order open.
\<close>

definition argsort :: "rat list \<Rightarrow> nat list" where
  "argsort xs = sort_key (\<lambda>i. xs ! i) [0 ..< length xs]"

text \<open>The sparse leg (lines 86-89) for a query that is a string.\<close>

definition sparse_leg :: "(string list \<Rightarrow> nat \<Rightarrow> rat) \<Rightarrow> document list \<Rightarrow> string \<Rightarrow> int \<Rightarrow> document list" where
  "sparse_leg idx docs query k =
     (let tokenized_query = py_split query;
          bm25_scores = map (idx tokenized_query) [0 ..< length docs];
          sparse_indices = rev (slice_from (- k) (argsort bm25_scores))
      in map (\<lambda>i. docs ! i) sparse_indices)"

text \<open>
  \<open>hybrid_search\<close> (lines 77-93).  The query is whatever the caller passes; on a value
  that is not a string \<open>query.split()\<close> raises \<open>AttributeError\<close>.
\<close>

definition hybrid_search :: "pipeline \<Rightarrow> json \<Rightarrow> int \<Rightarrow> error + RetrievalResult list" where
  "hybrid_search P query k =
     bind_err (case vector_store P of None \<Rightarrow> Inr [] | Some vs \<Rightarrow> vs query k)
       (\<lambda>dense_results.
     bind_err (case bm25 P of
                 None \<Rightarrow> Inr []
               | Some idx \<Rightarrow>
                   if documents P = [] then Inr []
                   else (case query of
                           JStr s \<Rightarrow> Inr (sparse_leg idx (documents P) s k)
                         | _ \<Rightarrow> Inl AttributeError))
       (\<lambda>sparse_results. Inr (merge_results dense_results sparse_results)))"

subsection \<open>Re-ranking\<close>

text \<open>The property \<open>reranker\<close> (lines 41-46): loads the model on first use.\<close>

definition reranker :: "env \<Rightarrow> pipeline \<Rightarrow> (error + cross_encoder) \<times> pipeline" where
  "reranker E P =
     (case reranker_state P of
        Some m \<Rightarrow> (Inr m, P)
      | None \<Rightarrow>
          (case CrossEncoder E of
             Inl e \<Rightarrow> (Inl e, P)
           | Inr m \<Rightarrow> (Inr m, P\<lparr>reranker_state := Some m\<rparr>)))"

text \<open>\<open>for result, score in zip(results, scores): result.score = score\<close>.\<close>

fun assign_scores :: "RetrievalResult list \<Rightarrow> rat list \<Rightarrow> RetrievalResult list" where
  "assign_scores [] ss = []"
| "assign_scores (r # rs) [] = r # rs"
| "assign_scores (r # rs) (s # ss) = r\<lparr>score := s\<rparr> # assign_scores rs ss"

text \<open>\<open>rerank\<close> (lines 95-103).\<close>

definition rerank ::
  "env \<Rightarrow> pipeline \<Rightarrow> json \<Rightarrow> RetrievalResult list \<Rightarrow> (error + RetrievalResult list) \<times> pipeline" where
  "rerank E P query results =
     (let pairs = map (\<lambda>r. (query, content r)) results
      in case reranker E P of
           (Inl e, P1) \<Rightarrow> (Inl e, P1)
         | (Inr m, P1) \<Rightarrow>
             (let P2 = P1\<lparr>predict_calls := Suc (predict_calls P1)\<rparr>
              in case m pairs of
                   Inl e \<Rightarrow> (Inl e, P2)
                 | Inr scores \<Rightarrow> (Inr (sort_by_score_desc (assign_scores results scores)), P2)))"

subsection \<open>Cross-year comparison\<close>

definition filtered_query :: "string \<Rightarrow> string \<Rightarrow> string" where
  "filtered_query query year = query @ '' (year: '' @ year @ '')''"

text \<open>\<open>compare_across_years\<close> (lines 105-115); the result dictionary in insertion order.\<close>

fun compare_loop ::
  "pipeline \<Rightarrow> string \<Rightarrow> (string \<times> RetrievalResult list) list \<Rightarrow> string list
   \<Rightarrow> error + (string \<times> RetrievalResult list) list" where
  "compare_loop P query results_by_year [] = Inr results_by_year"
| "compare_loop P query results_by_year (year # years) =
     (case hybrid_search P (JStr (filtered_query query year)) 5 of
        Inl e \<Rightarrow> Inl e
      | Inr results \<Rightarrow> compare_loop P query (AList.update year results results_by_year) years)"

definition compare_across_years ::
  "pipeline \<Rightarrow> string \<Rightarrow> string list \<Rightarrow> error + (string \<times> RetrievalResult list) list" where
  "compare_across_years P query years = compare_loop P query [] years"

subsection \<open>Deduplication and the main entry point\<close>

text \<open>\<open>_deduplicate\<close> (lines 190-206): the key is \<open>result.content[:200]\<close>.\<close>

fun dedup_loop :: "string list \<Rightarrow> RetrievalResult list \<Rightarrow> RetrievalResult list" where
  "dedup_loop seen_contents [] = []"
| "dedup_loop seen_contents (result # rest) =
     (let content_key = take 200 (content result)
      in if content_key \<notin> set seen_contents
         then result # dedup_loop (content_key # seen_contents) rest
         else dedup_loop seen_contents rest)"

definition deduplicate :: "RetrievalResult list \<Rightarrow> RetrievalResult list" where
  "deduplicate results = (if results = [] then [] else dedup_loop [] results)"

text \<open>
  The body of the loop of \<open>retrieve\<close> (lines 125-132) for one sub-query: hybrid
  search, re-ranking when there are results, and the slice \<open>results[:5]\<close> that is
  appended to \<open>all_results\<close>.
\<close>

definition sub_query_results ::
  "env \<Rightarrow> pipeline \<Rightarrow> json \<Rightarrow> (error + RetrievalResult list) \<times> pipeline" where
  "sub_query_results E P sq =
     (case hybrid_search P sq 20 of
        Inl e \<Rightarrow> (Inl e, P)
      | Inr results \<Rightarrow>
          (case (if results \<noteq> [] then rerank E P sq results else (Inr results, P)) of
             (Inl e, P1) \<Rightarrow> (Inl e, P1)
           | (Inr results1, P1) \<Rightarrow> (Inr (take 5 results1), P1)))"

fun retrieve_loop ::
  "env \<Rightarrow> pipeline \<Rightarrow> RetrievalResult list \<Rightarrow> json list
   \<Rightarrow> (error + RetrievalResult list) \<times> pipeline" where
  "retrieve_loop E P all_results [] = (Inr all_results, P)"
| "retrieve_loop E P all_results (sq # sqs) =
     (case sub_query_results E P sq of
        (Inl e, P1) \<Rightarrow> (Inl e, P1)
      | (Inr top5, P1) \<Rightarrow> retrieve_loop E P1 (all_results @ top5) sqs)"

text \<open>\<open>retrieve\<close> (lines 117-137); its parameter \<open>strategy\<close> is not used.\<close>

definition retrieve :: "env \<Rightarrow> pipeline \<Rightarrow> string \<Rightarrow> (error + RetrievalResult list) \<times> pipeline" where
  "retrieve E P query =
     (let sub_queries = decompose_query E query
      in case retrieve_loop E P [] sub_queries of
           (Inl e, P1) \<Rightarrow> (Inl e, P1)
         | (Inr all_results, P1) \<Rightarrow>
             (let unique_results = deduplicate all_results
              in (Inr (take 10 unique_results), P1)))"

section \<open>Citations (core/citations.py)\<close>

record Citation =
  source_type :: string
  ticker :: string
  year :: "string option"
  section_name :: "string option"
  page_range :: "(int \<times> int) option"
  url :: string
  timestamp :: "string option"

text \<open>How an f-string prints an optional string: \<open>None\<close> prints as the word None.\<close>

definition str_opt :: "string option \<Rightarrow> string" where
  "str_opt x = (case x of None \<Rightarrow> ''None'' | Some s \<Rightarrow> s)"

definition to_markdown :: "Citation \<Rightarrow> string" where
  "to_markdown c =
     (if source_type c = ''10-K''
      then ''['' @ ticker c @ '' 10-K '' @ str_opt (year c) @ '', '' @ str_opt (section_name c)
           @ ''](''  @ url c @ '')''
      else ''[Market Data: '' @ ticker c @ '' at '' @ str_opt (timestamp c) @ '']'')"

section \<open>Market data values\<close>

text \<open>
  The values stored in a market-data dictionary: \<open>None\<close>, Python ints, floats,
  strings and the \<open>Citation\<close> object.  A finite float is given by its exact value,
  \<open>MInf\<close> is an infinity with its sign (\<open>True\<close> for positive) and \<open>MNaN\<close> is
  not-a-number.  A dictionary is an association list with unique keys; \<open>d.get(k)\<close>
  is \<open>dict_get d k\<close>.
\<close>

datatype mval =
    MNone | MInt int | MFloat rat | MInf bool | MNaN | MStr string | MCit Citation

type_synonym market_dict = "(string \<times> mval) list"

definition dict_get :: "market_dict \<Rightarrow> string \<Rightarrow> mval" where
  "dict_get d k = (case map_of d k of None \<Rightarrow> MNone | Some v \<Rightarrow> v)"

definition dict_get_default :: "market_dict \<Rightarrow> string \<Rightarrow> mval \<Rightarrow> mval" where
  "dict_get_default d k dflt = (case map_of d k of None \<Rightarrow> dflt | Some v \<Rightarrow> v)"

definition dict_item :: "market_dict \<Rightarrow> string \<Rightarrow> error + mval" where
  "dict_item d k = (case map_of d k of None \<Rightarrow> Inl KeyError | Some v \<Rightarrow> Inr v)"

text \<open>Truth value of an object in a condition.\<close>

fun truthy :: "mval \<Rightarrow> bool" where
  "truthy MNone = False"
| "truthy (MInt i) = (i \<noteq> 0)"
| "truthy (MFloat r) = (r \<noteq> 0)"
| "truthy (MInf b) = True"
| "truthy MNaN = True"
| "truthy (MStr s) = (s \<noteq> [])"
| "truthy (MCit c) = True"

text \<open>
  The operators of the language on these values, as the interpreter computes them:
  \<open>a * b\<close>, \<open>a - b\<close>, \<open>abs(a)\<close>, \<open>a / b\<close> and \<open>a < b\<close>.  They are not code of
  the repository and are taken as given.  On floats they round to the nearest
  double and overflow to an infinity; they raise \<open>TypeError\<close> on operands without
  the operator, \<open>OverflowError\<close> where an int is too large for a float, and
  \<open>ZeroDivisionError\<close> on a zero divisor.
\<close>

record arith =
  py_mul :: "mval \<Rightarrow> mval \<Rightarrow> error + mval"
  py_sub :: "mval \<Rightarrow> mval \<Rightarrow> error + mval"
  py_abs :: "mval \<Rightarrow> error + mval"
  py_truediv :: "mval \<Rightarrow> mval \<Rightarrow> error + mval"
  py_less :: "mval \<Rightarrow> mval \<Rightarrow> error + bool"

section \<open>Auditor (agents/auditor.py)\<close>

subsection \<open>The regular expressions, as matchers\<close>

definition is_digit :: "char \<Rightarrow> bool" where
  "is_digit c = ((48::nat) \<le> of_char c \<and> of_char c \<le> (57::nat))"

definition lower_char :: "char \<Rightarrow> char" where
  "lower_char c =
     (if (65::nat) \<le> of_char c \<and> of_char c \<le> (90::nat) then char_of (of_char c + (32::nat)) else c)"

text \<open>
  The citation pattern: an opening bracket, one or more characters other than the
  closing bracket, the closing bracket, an opening parenthesis, one or more characters
  other than the closing parenthesis, the closing parenthesis.  Both groups are
  negated classes followed by the excluded character, so the match at a position is
  unique.  \<open>match_citation s\<close> is the text after a match at the start of \<open>s\<close>.
\<close>

definition match_citation :: "string \<Rightarrow> string option" where
  "match_citation s =
     (case s of
        [] \<Rightarrow> None
      | c # rest \<Rightarrow>
          if c \<noteq> CHR ''['' then None
          else (let label = takeWhile (\<lambda>x. x \<noteq> CHR '']'') rest;
                    after = dropWhile (\<lambda>x. x \<noteq> CHR '']'') rest
                in if label = [] then None
                   else (case after of
                           c1 # c2 # rest2 \<Rightarrow>
                             if c1 = CHR '']'' \<and> c2 = CHR ''(''
                             then (let target = takeWhile (\<lambda>x. x \<noteq> CHR '')'') rest2;
                                       after2 = dropWhile (\<lambda>x. x \<noteq> CHR '')'') rest2
                                   in if target = [] then None
                                      else (case after2 of
                                              [] \<Rightarrow> None
                                            | c3 # rest3 \<Rightarrow> Some rest3))
                             else None
                         | _ \<Rightarrow> None)))"

text \<open>\<open>re.search(citation_pattern, s)\<close> finds a match.\<close>

fun search_citation :: "string \<Rightarrow> bool" where
  "search_citation [] = False"
| "search_citation (c # cs) = (match_citation (c # cs) \<noteq> None \<or> search_citation cs)"

text \<open>
  \<open>len(re.findall(citation_pattern, s))\<close>: the matches from left to right, without
  overlap.  \<open>skip\<close> is the number of characters still inside the last match.
\<close>

fun count_citations :: "nat \<Rightarrow> string \<Rightarrow> nat" where
  "count_citations skip [] = 0"
| "count_citations (Suc n) (c # cs) = count_citations n cs"
| "count_citations 0 (c # cs) =
     (case match_citation (c # cs) of
        None \<Rightarrow> count_citations 0 cs
      | Some rest \<Rightarrow> Suc (count_citations (length cs - length rest) cs))"

text \<open>\<open>sub\<close> occurs in \<open>s\<close>, letters compared without case.\<close>

fun contains_nocase :: "string \<Rightarrow> string \<Rightarrow> bool" where
  "contains_nocase sub [] = (sub = [])"
| "contains_nocase sub (c # cs) =
     (map lower_char sub = take (length sub) (map lower_char (c # cs)) \<or> contains_nocase sub cs)"

text \<open>A digit followed by a percent sign: the first indicator.\<close>

fun has_percentage :: "string \<Rightarrow> bool" where
  "has_percentage (a # b # cs) = ((is_digit a \<and> b = CHR ''%'') \<or> has_percentage (b # cs))"
| "has_percentage cs = False"

text \<open>A dollar sign followed by a digit or a comma: the second indicator.\<close>

fun has_dollar_amount :: "string \<Rightarrow> bool" where
  "has_dollar_amount (a # b # cs) =
     ((a = CHR ''$'' \<and> (is_digit b \<or> b = CHR '','')) \<or> has_dollar_amount (b # cs))"
| "has_dollar_amount cs = False"

text \<open>Four digits in a row: the third indicator.\<close>

fun has_four_digits :: "string \<Rightarrow> bool" where
  "has_four_digits [] = False"
| "has_four_digits (c # cs) =
     ((length (takeWhile is_digit (c # cs)) \<ge> 4) \<or> has_four_digits cs)"

text \<open>\<open>_is_factual_claim\<close> (lines 98-114).\<close>

definition is_factual_claim :: "string \<Rightarrow> bool" where
  "is_factual_claim sentence =
     (has_percentage sentence
      \<or> has_dollar_amount sentence
      \<or> has_four_digits sentence
      \<or> list_ex (\<lambda>w. contains_nocase w sentence)
           [''increased'', ''decreased'', ''grew'', ''declined'']
      \<or> list_ex (\<lambda>w. contains_nocase w sentence)
           [''risk'', ''revenue'', ''profit'', ''loss'', ''debt''])"

text \<open>\<open>s.split(sep)\<close> for a one-character separator.\<close>

fun split_on :: "char \<Rightarrow> string \<Rightarrow> string \<Rightarrow> string list" where
  "split_on sep cur [] = [cur]"
| "split_on sep cur (c # cs) =
     (if c = sep then cur # split_on sep [] cs else split_on sep (cur @ [c]) cs)"

subsection \<open>The three checks\<close>

record citation_check =
  total_citations :: nat
  uncited_claims :: "string list"
  all_valid :: bool

record numeric_check =
  calculations_valid :: bool
  market_cap_error_pct :: mval
  calculated :: mval
  reported :: mval

record claim_check =
  unsupported_claims :: "string list"

record verification =
  citation_check_of :: citation_check
  numeric_check_of :: numeric_check
  claim_check_of :: claim_check
  overall_confidence :: rat

text \<open>\<open>_verify_claims\<close> (lines 22-26).\<close>

definition verify_claims :: "string \<Rightarrow> claim_check" where
  "verify_claims analyst_report = \<lparr>unsupported_claims = []\<rparr>"

text \<open>\<open>_verify_citations\<close> (lines 49-71); the list of citations is not looked at.\<close>

definition verify_citations :: "string \<Rightarrow> 'c list \<Rightarrow> citation_check" where
  "verify_citations report citations =
     (let sentences = split_on CHR ''.'' [] report;
          uncited = map py_strip
                      (filter (\<lambda>sentence. length (py_strip sentence) > 20
                                           \<and> \<not> search_citation sentence
                                           \<and> is_factual_claim sentence) sentences)
      in \<lparr>total_citations = count_citations 0 report,
          uncited_claims = uncited,
          all_valid = (length uncited = 0)\<rparr>)"

text \<open>
  \<open>_verify_numbers\<close> (lines 73-96), operator by operator.  \<open>None\<close> in the result
  is \<open>MNone\<close>.
\<close>

definition verify_numbers :: "arith \<Rightarrow> market_dict \<Rightarrow> error + numeric_check" where
  "verify_numbers A market_data =
     (let price = dict_get market_data ''current_price'';
          shares = dict_get market_data ''shares_outstanding'';
          market_cap = dict_get market_data ''market_cap''
      in bind_err (if truthy price \<and> truthy shares then py_mul A price shares else Inr MNone)
           (\<lambda>calculated_cap.
              if truthy calculated_cap \<and> truthy market_cap
              then bind_err (py_sub A calculated_cap market_cap) (\<lambda>difference.
                   bind_err (py_abs A difference) (\<lambda>distance.
                   bind_err (py_truediv A distance market_cap) (\<lambda>ratio.
                   bind_err (py_mul A ratio (MInt 100)) (\<lambda>error_pct.
                   bind_err (py_less A error_pct (MFloat 5)) (\<lambda>valid.
                     Inr \<lparr>calculations_valid = valid, market_cap_error_pct = error_pct,
                          calculated = calculated_cap, reported = market_cap\<rparr>)))))
              else Inr \<lparr>calculations_valid = False, market_cap_error_pct = MNone,
                        calculated = calculated_cap, reported = market_cap\<rparr>))"

text \<open>\<open>True\<close> counts as 1 and \<open>False\<close> as 0 in \<open>sum\<close>.\<close>

definition sum_bools :: "bool list \<Rightarrow> nat" where
  "sum_bools bs = sum_list (map (\<lambda>b. if b then 1 else 0) bs)"

text \<open>
  \<open>verify\<close> (lines 28-47).  The quotient of the count by \<open>3.0\<close> is kept exact: it
  stands for the float nearest to it.
\<close>

definition verify :: "arith \<Rightarrow> string \<Rightarrow> 'c list \<Rightarrow> market_dict \<Rightarrow> error + verification" where
  "verify A analyst_report citations market_data =
     (let cc = verify_citations analyst_report citations
      in bind_err (verify_numbers A market_data)
           (\<lambda>nc. let cl = verify_claims analyst_report;
                      checks_passed = sum_bools [all_valid cc, calculations_valid nc,
                                                 length (unsupported_claims cl) = 0]
                  in Inr \<lparr>citation_check_of = cc, numeric_check_of = nc, claim_check_of = cl,
                          overall_confidence = of_nat checks_passed / 3\<rparr>))"

section \<open>Citation tracker (core/citations.py)\<close>

text \<open>
  The tracker stores whatever object it is given; \<open>to_markdown\<close> exists on
  \<open>Citation\<close> objects only.
\<close>

record CitationTracker =
  citations :: "mval list"
  claim_to_citation :: "(string \<times> mval list) list"

definition new_tracker :: CitationTracker where
  "new_tracker = \<lparr>citations = [], claim_to_citation = []\<rparr>"

definition add_citation :: "CitationTracker \<Rightarrow> string \<Rightarrow> mval \<Rightarrow> CitationTracker" where
  "add_citation T claim c =
     (let m0 = claim_to_citation T;
          m1 = (if map_of m0 claim = None then m0 @ [(claim, [])] else m0);
          m2 = map (\<lambda>(k, v). if k = claim then (k, v @ [c]) else (k, v)) m1
      in T\<lparr>claim_to_citation := m2, citations := citations T @ [c]\<rparr>)"

text \<open>The decimal digits of a natural number, as \<open>str\<close> prints it.\<close>

fun str_nat :: "nat \<Rightarrow> string" where
  "str_nat n =
     (if n < 10 then [char_of (48 + n)] else str_nat (n div 10) @ [char_of (48 + n mod 10)])"

declare str_nat.simps [simp del]

fun sources_loop :: "string \<Rightarrow> string list \<Rightarrow> (nat \<times> mval) list \<Rightarrow> error + string" where
  "sources_loop output seen [] = Inr output"
| "sources_loop output seen ((i, c) # rest) =
     (case c of
        MCit ct \<Rightarrow>
          (let citation_str = to_markdown ct
           in if citation_str \<notin> set seen
              then sources_loop (output @ str_nat i @ ''. '' @ citation_str @ nl)
                     (citation_str # seen) rest
              else sources_loop output seen rest)
      | _ \<Rightarrow> Inl AttributeError)"

definition format_for_report :: "CitationTracker \<Rightarrow> error + string" where
  "format_for_report T =
     (if citations T = [] then Inr []
      else sources_loop (nl @ nl @ ''## Sources'' @ nl @ nl) [] (enumerate1 (citations T)))"

section \<open>Agents\<close>

text \<open>
  What the agents call but do not define: the planner model (the content of its
  response, possibly \<open>None\<close>), the market-data service (\<open>yf.Ticker(t).info\<close>), the
  clock (\<open>datetime.now().isoformat()\<close>), the console (\<open>print\<close> of one line, which
  may raise, for instance \<open>UnicodeEncodeError\<close>), the text of the
  \<open>JSONDecodeError\<close> that the parser raises on a given input, the arithmetic, and
  Python's own formatting of values: the format specifications \<open>.2f\<close> and
  \<open>,.0f\<close> of a number and the default \<open>str\<close>, which raise on a number too large
  to format.
\<close>

record services =
  planner_run :: "string \<Rightarrow> error + string option"
  yf_info :: "string \<Rightarrow> error + market_dict"
  now_isoformat :: string
  console_print :: "string \<Rightarrow> error option"
  decode_error_text :: "string \<Rightarrow> string"
  arithmetic :: arith
  fmt_2f :: "mval \<Rightarrow> error + string"
  fmt_comma_0f :: "mval \<Rightarrow> error + string"
  py_str :: "mval \<Rightarrow> error + string"

subsection \<open>Filing researcher (agents/sec\_researcher.py)\<close>

definition sec_run :: "json \<Rightarrow> string \<Rightarrow> json" where
  "sec_run task tick =
     JObj [(''risks'', JObj []), (''financials'', JObj []),
           (''strategy'', JStr ''See 10-K filings for details'')]"

subsection \<open>Market data (agents/market\_data.py)\<close>

definition get_comprehensive_data :: "services \<Rightarrow> string \<Rightarrow> error + market_dict" where
  "get_comprehensive_data S tick =
     bind_err (yf_info S tick)
       (\<lambda>info. let ts = now_isoformat S
               in Inr [(''ticker'', MStr tick),
                       (''timestamp'', MStr ts),
                       (''current_price'', dict_get info ''currentPrice''),
                       (''previous_close'', dict_get info ''previousClose''),
                       (''open'', dict_get info ''open''),
                       (''market_cap'', dict_get info ''marketCap''),
                       (''shares_outstanding'', dict_get info ''sharesOutstanding''),
                       (''52_week_high'', dict_get info ''fiftyTwoWeekHigh''),
                       (''52_week_low'', dict_get info ''fiftyTwoWeekLow''),
                       (''pe_ratio'', dict_get info ''trailingPE''),
                       (''forward_pe'', dict_get info ''forwardPE''),
                       (''dividend_yield'', dict_get info ''dividendYield''),
                       (''beta'', dict_get info ''beta''),
                       (''volume'', dict_get info ''volume''),
                       (''avg_volume'', dict_get info ''averageVolume''),
                       (''currency'', dict_get_default info ''currency'' (MStr ''USD'')),
                       (''exchange'', dict_get info ''exchange''),
                       (''timezone'', dict_get info ''timeZoneFullName''),
                       (''citation'',
                          MCit \<lparr>source_type = ''market_data'', ticker = tick, year = None,
                                section_name = None, page_range = None,
                                url = ''https://finance.yahoo.com/quote/'' @ tick,
                                timestamp = Some ts\<rparr>)])"

definition market_run :: "services \<Rightarrow> string \<Rightarrow> error + market_dict" where
  "market_run S tick = get_comprehensive_data S tick"

subsection \<open>Analyst (agents/analyst.py)\<close>

text \<open>
  A replacement field with a format specification ending in \<open>f\<close>: numbers are
  formatted by the interpreter, \<open>None\<close> and objects raise \<open>TypeError\<close>, a string
  raises \<open>ValueError\<close>.
\<close>

fun format_f :: "(mval \<Rightarrow> error + string) \<Rightarrow> mval \<Rightarrow> error + string" where
  "format_f f MNone = Inl TypeError"
| "format_f f (MStr s) = Inl ValueError"
| "format_f f (MCit c) = Inl TypeError"
| "format_f f v = f v"

definition generate_executive_summary :: "services \<Rightarrow> json option \<Rightarrow> market_dict \<Rightarrow> error + string" where
  "generate_executive_summary F sec_data market_data =
     (let tk = dict_get_default market_data ''ticker'' (MStr ''N/A'');
          price = dict_get_default market_data ''current_price'' (MInt 0);
          market_cap = dict_get_default market_data ''market_cap'' (MInt 0)
      in bind_err (py_str F tk) (\<lambda>t.
         bind_err (format_f (fmt_2f F) price) (\<lambda>p.
         bind_err (format_f (fmt_comma_0f F) market_cap) (\<lambda>m.
         Inr (nl
     @ ''    ''
     @ t
     @ '' is currently trading at $''
     @ p
     @ '' with a market capitalization of '' @ nl
     @ ''    $''
     @ m
     @ ''. The company demonstrates solid market positioning with '' @ nl
     @ ''    ongoing strategic initiatives detailed in recent SEC filings.'' @ nl
     @ ''    '')))))"

definition summarize_business :: "json option \<Rightarrow> string \<Rightarrow> string" where
  "summarize_business sec_data tick =
     nl
     @ ''    ''
     @ tick
     @ '' operates in its core business segments as detailed in Item 1 of the 10-K. '' @ nl
     @ ''    The company'' @ squote @ ''s strategy focuses on innovation and market expansion.'' @ nl
     @ nl
     @ ''    *Note: Full business analysis requires indexed 10-K filings.*'' @ nl
     @ ''    ''"

record risk =
  summary :: string
  citation :: Citation

definition categorize_risks :: "json \<Rightarrow> (string \<times> risk list) list" where
  "categorize_risks risks_by_year =
     [(''Market & Competition'', []), (''Operational'', []), (''Regulatory'', []),
      (''Technology'', [])]"

definition analyze_financials :: "json option \<Rightarrow> string \<Rightarrow> string" where
  "analyze_financials sec_data tick =
     nl
     @ ''    ### Revenue & Profitability'' @ nl
     @ ''    Analysis pending 10-K indexing.'' @ nl
     @ nl
     @ ''    ### Cash Flow'' @ nl
     @ ''    Analysis pending 10-K indexing.'' @ nl
     @ ''    ''"

definition assess_competition :: "json option \<Rightarrow> string \<Rightarrow> string" where
  "assess_competition sec_data tick =
     nl
     @ ''    ''
     @ tick
     @ squote @ ''s competitive position is outlined in the 10-K Item 1 (Business) '' @ nl
     @ ''    and Item 1A (Risk Factors) sections.'' @ nl
     @ nl
     @ ''    *Full competitive analysis requires indexed filings.*'' @ nl
     @ ''    ''"

definition generate_investment_view :: "json option \<Rightarrow> market_dict \<Rightarrow> string" where
  "generate_investment_view sec_data market_data =
     nl
     @ ''### Strengths'' @ nl
     @ ''{strengths}'' @ nl
     @ nl
     @ ''### Concerns'' @ nl
     @ ''{concerns}'' @ nl
     @ nl
     @ ''### Key Catalysts to Watch'' @ nl
     @ ''{catalysts}'' @ nl
     @ nl
     @ ''*Note: This is an analytical framework, not investment advice.*'' @ nl"

text \<open>
  \<open>_format_market_metrics\<close> (lines 131-154): the table is formatted field by field,
  then the citation is recorded.
\<close>

definition format_market_metrics ::
  "services \<Rightarrow> CitationTracker \<Rightarrow> market_dict \<Rightarrow> (error + string) \<times> CitationTracker" where
  "format_market_metrics F T data =
     (case
        bind_err (bind_err (dict_item data ''current_price'') (format_f (fmt_2f F))) (\<lambda>s1.
        bind_err (bind_err (dict_item data ''market_cap'') (format_f (fmt_comma_0f F))) (\<lambda>s2.
        bind_err (bind_err (dict_item data ''shares_outstanding'') (format_f (fmt_comma_0f F))) (\<lambda>s3.
        bind_err (bind_err (dict_item data ''52_week_low'') (format_f (fmt_2f F))) (\<lambda>s4.
        bind_err (bind_err (dict_item data ''52_week_high'') (format_f (fmt_2f F))) (\<lambda>s5.
        bind_err (py_str F (dict_get_default data ''pe_ratio'' (MStr ''N/A''))) (\<lambda>s6.
        bind_err (py_str F (dict_get_default data ''beta'' (MStr ''N/A''))) (\<lambda>s7.
        bind_err (bind_err (py_mul (arithmetic F)
                              (dict_get_default data ''dividend_yield'' (MInt 0)) (MInt 100))
                    (format_f (fmt_2f F))) (\<lambda>s8.
        bind_err (bind_err (dict_item data ''timestamp'') (py_str F)) (\<lambda>s9.
        bind_err (dict_item data ''citation'') (\<lambda>c.
        Inr (nl
     @ ''| Metric | Value |'' @ nl
     @ ''|--------|-------|'' @ nl
     @ ''| **Current Price** | $''
     @ s1
     @ '' |'' @ nl
     @ ''| **Market Cap** | $''
     @ s2
     @ '' |'' @ nl
     @ ''| **Shares Outstanding** | ''
     @ s3
     @ '' |'' @ nl
     @ ''| **52-Week Range** | $''
     @ s4
     @ '' - $''
     @ s5
     @ '' |'' @ nl
     @ ''| **P/E Ratio** | ''
     @ s6
     @ '' |'' @ nl
     @ ''| **Beta** | ''
     @ s7
     @ '' |'' @ nl
     @ ''| **Dividend Yield** | ''
     @ s8
     @ ''% |'' @ nl
     @ nl
     @ ''*Source: Yahoo Finance, ''
     @ s9
     @ ''*'' @ nl, c)))))))))))
      of
        Inl e \<Rightarrow> (Inl e, T)
      | Inr (table, c) \<Rightarrow> (Inr table, add_citation T ''Current market metrics'' c))"

text \<open>\<open>_analyze_risks\<close> (lines 156-173); \<open>sec_data.get\<close> needs a dictionary.\<close>

definition risk_lines :: "risk list \<Rightarrow> string" where
  "risk_lines risks =
     concat (map (\<lambda>r. ''- '' @ summary r @ '' '' @ to_markdown (citation r) @ nl) (take 3 risks))"

definition analyze_risks :: "json option \<Rightarrow> string \<Rightarrow> error + string" where
  "analyze_risks sec_data tick =
     (case sec_data of
        Some (JObj kv) \<Rightarrow>
          (let risks_by_year = (case map_of kv ''risks'' of None \<Rightarrow> JObj [] | Some v \<Rightarrow> v);
               risk_categories = categorize_risks risks_by_year
           in Inr (foldl (\<lambda>output (category, risks).
                            output @ ''**'' @ category @ ''**'' @ nl @ nl @ risk_lines risks @ nl)
                     (''### Top Risk Factors (Last 5 Years)'' @ nl @ nl) risk_categories))
      | _ \<Rightarrow> Inl AttributeError)"

text \<open>
  \<open>synthesize\<close> (lines 77-129).  The replacement fields of the report are evaluated
  from top to bottom; subscripting a \<open>market_data\<close> of \<open>None\<close> raises \<open>TypeError\<close>.
\<close>

definition synthesize ::
  "services \<Rightarrow> CitationTracker \<Rightarrow> json option \<Rightarrow> market_dict option \<Rightarrow> string
   \<Rightarrow> (error + string) \<times> CitationTracker" where
  "synthesize F T sec_data market_data tick =
     (case market_data of
        None \<Rightarrow> (Inl TypeError, T)
      | Some md \<Rightarrow>
     (case bind_err (dict_item md ''timestamp'') (py_str F) of
        Inl e \<Rightarrow> (Inl e, T)
      | Inr ts \<Rightarrow>
     (case generate_executive_summary F sec_data md of
        Inl e \<Rightarrow> (Inl e, T)
      | Inr es \<Rightarrow>
     (case format_market_metrics F T md of
        (Inl e, T1) \<Rightarrow> (Inl e, T1)
      | (Inr mm, T1) \<Rightarrow>
     (case analyze_risks sec_data tick of
        Inl e \<Rightarrow> (Inl e, T1)
      | Inr ar \<Rightarrow>
     (case format_for_report T1 of
        Inl e \<Rightarrow> (Inl e, T1)
      | Inr fr \<Rightarrow>
         (let sb = summarize_business sec_data tick;
              af = analyze_financials sec_data tick;
              ac = assess_competition sec_data tick;
              iv = generate_investment_view sec_data md
          in (Inr (''# Financial Analysis: ''
     @ tick
     @ nl
     @ ''*Generated: ''
     @ ts
     @ ''*'' @ nl
     @ nl
     @ ''---'' @ nl
     @ nl
     @ ''## Executive Summary'' @ nl
     @ nl
     @ es
     @ nl
     @ nl
     @ ''---'' @ nl
     @ nl
     @ ''## Current Market Metrics'' @ nl
     @ nl
     @ mm
     @ nl
     @ nl
     @ ''---'' @ nl
     @ nl
     @ ''## Business Overview & Strategy'' @ nl
     @ nl
     @ sb
     @ nl
     @ nl
     @ ''---'' @ nl
     @ nl
     @ ''## Key Risk Factors'' @ nl
     @ nl
     @ ar
     @ nl
     @ nl
     @ ''---'' @ nl
     @ nl
     @ ''## Financial Performance Trends'' @ nl
     @ nl
     @ af
     @ nl
     @ nl
     @ ''---'' @ nl
     @ nl
     @ ''## Competitive Position'' @ nl
     @ nl
     @ ac
     @ nl
     @ nl
     @ ''---'' @ nl
     @ nl
     @ ''## Investment Considerations'' @ nl
     @ nl
     @ iv
     @ nl
     @ nl
     @ fr
     @ nl), T1))))))))"

subsection \<open>Orchestrator (agents/orchestrator.py)\<close>

definition plan_prompt :: "string \<Rightarrow> string" where
  "plan_prompt user_query =
     nl
     @ ''        User Query: ''
     @ user_query
     @ nl
     @ ''        '' @ nl
     @ ''        Create an execution plan:'' @ nl
     @ ''        1. What information is needed from 10-K filings?'' @ nl
     @ ''        2. What market data is required?'' @ nl
     @ ''        3. What comparisons or calculations are needed?'' @ nl
     @ ''        4. In what order should agents execute?'' @ nl
     @ ''        '' @ nl
     @ ''        Return ONLY valid JSON (no markdown, no code blocks):'' @ nl
     @ ''        {'' @ nl
     @ ''            '' @ dquote @ ''steps'' @ dquote @ '': ['' @ nl
     @ ''                {'' @ dquote @ ''agent'' @ dquote @ '': '' @ dquote @ ''sec_researcher'' @ dquote @ '', '' @ dquote @ ''task'' @ dquote @ '': '' @ dquote @ ''...'' @ dquote @ '', '' @ dquote @ ''dependencies'' @ dquote @ '': []},'' @ nl
     @ ''                {'' @ dquote @ ''agent'' @ dquote @ '': '' @ dquote @ ''market_data'' @ dquote @ '', '' @ dquote @ ''task'' @ dquote @ '': '' @ dquote @ ''...'' @ dquote @ '', '' @ dquote @ ''dependencies'' @ dquote @ '': []},'' @ nl
     @ ''                {'' @ dquote @ ''agent'' @ dquote @ '': '' @ dquote @ ''analyst'' @ dquote @ '', '' @ dquote @ ''task'' @ dquote @ '': '' @ dquote @ ''...'' @ dquote @ '', '' @ dquote @ ''dependencies'' @ dquote @ '': ['' @ dquote @ ''sec_researcher'' @ dquote @ '', '' @ dquote @ ''market_data'' @ dquote @ '']},'' @ nl
     @ ''                {'' @ dquote @ ''agent'' @ dquote @ '': '' @ dquote @ ''auditor'' @ dquote @ '', '' @ dquote @ ''task'' @ dquote @ '': '' @ dquote @ ''...'' @ dquote @ '', '' @ dquote @ ''dependencies'' @ dquote @ '': ['' @ dquote @ ''analyst'' @ dquote @ '']}'' @ nl
     @ ''            ]'' @ nl
     @ ''        }'' @ nl
     @ ''        ''"

text \<open>\<open>sep.join(xs)\<close>.\<close>

fun join :: "string \<Rightarrow> string list \<Rightarrow> string" where
  "join sep [] = []"
| "join sep [x] = x"
| "join sep (x # y # ys) = x @ sep @ join sep (y # ys)"

definition fence :: string where
  "fence = [CHR 0x60, CHR 0x60, CHR 0x60]"

text \<open>Removal of the code-block markers (lines 68-76).\<close>

definition strip_fence :: "string \<Rightarrow> string" where
  "strip_fence txt =
     (if take 3 txt = fence
      then (let lines0 = split_on CHR 0x0A [] txt;
                lines1 = drop 1 lines0;
                lines2 = (if lines1 \<noteq> [] \<and> py_strip (last lines1) = fence
                          then butlast lines1 else lines1)
            in join nl lines2)
      else txt)"

definition plan_step :: "string \<Rightarrow> string \<Rightarrow> string list \<Rightarrow> json" where
  "plan_step a t deps =
     JObj [(''agent'', JStr a), (''task'', JStr t), (''dependencies'', JArr (map JStr deps))]"

text \<open>The plan built in the \<open>except\<close> branch (lines 85-92).\<close>

definition fallback_plan :: "string \<Rightarrow> json" where
  "fallback_plan user_query =
     JObj [(''steps'', JArr
       [plan_step ''sec_researcher'' (''Analyze 10-K filings for '' @ user_query) [],
        plan_step ''market_data'' ''Fetch current market data'' [],
        plan_step ''analyst'' ''Synthesize analysis'' [''sec_researcher'', ''market_data''],
        plan_step ''auditor'' ''Verify analysis'' [''analyst'']])]"

text \<open>
  \<open>create_plan\<close> (lines 39-94).  Only \<open>json.JSONDecodeError\<close> is caught; an
  exception of the planner, a response without content, another exception of the
  parser, or an exception of one of the two \<open>print\<close> calls reaches the caller.
\<close>

definition create_plan :: "env \<Rightarrow> services \<Rightarrow> string \<Rightarrow> error + json" where
  "create_plan E S user_query =
     bind_err (planner_run S (plan_prompt user_query))
       (\<lambda>response_content.
          case response_content of
            None \<Rightarrow> Inl AttributeError
          | Some c \<Rightarrow>
              (let txt = strip_fence (py_strip c)
               in case json_loads E txt of
                    Inl JSONDecodeError \<Rightarrow>
                      (case console_print S (''Warning: Could not parse plan JSON: ''
                                             @ decode_error_text S txt) of
                         Some e \<Rightarrow> Inl e
                       | None \<Rightarrow>
                           (case console_print S (''Raw content: '' @ take 200 txt) of
                              Some e \<Rightarrow> Inl e
                            | None \<Rightarrow> Inr (fallback_plan user_query)))
                  | Inl e \<Rightarrow> Inl e
                  | Inr plan \<Rightarrow> Inr plan))"

text \<open>\<open>v[key]\<close> for a string key: only a dictionary can be subscripted with it.\<close>

definition py_getitem :: "json \<Rightarrow> string \<Rightarrow> error + json" where
  "py_getitem v key =
     (case v of
        JObj kv \<Rightarrow> (case map_of kv key of None \<Rightarrow> Inl KeyError | Some x \<Rightarrow> Inr x)
      | _ \<Rightarrow> Inl TypeError)"

text \<open>
  Iteration: a list gives its elements, a dictionary its keys, a string its
  characters; the other values are not iterable.
\<close>

definition py_iter :: "json \<Rightarrow> error + json list" where
  "py_iter v =
     (case v of
        JArr xs \<Rightarrow> Inr xs
      | JObj kv \<Rightarrow> Inr (map (\<lambda>p. JStr (fst p)) kv)
      | JStr s \<Rightarrow> Inr (map (\<lambda>c. JStr [c]) s)
      | _ \<Rightarrow> Inl TypeError)"

text \<open>
  The result map.  Its keys are written by the four branches of the dispatch only, one
  key per role, each with its own type of value; an absent key is \<open>None\<close>.
\<close>

record results =
  sec_researcher :: "json option"
  market_data :: "market_dict option"
  analyst :: "string option"
  auditor :: "verification option"

definition empty_results :: results where
  "empty_results = \<lparr>sec_researcher = None, market_data = None, analyst = None, auditor = None\<rparr>"

definition has_key :: "results \<Rightarrow> string \<Rightarrow> bool" where
  "has_key R k =
     ((k = ''sec_researcher'' \<and> sec_researcher R \<noteq> None)
      \<or> (k = ''market_data'' \<and> market_data R \<noteq> None)
      \<or> (k = ''analyst'' \<and> analyst R \<noteq> None)
      \<or> (k = ''auditor'' \<and> auditor R \<noteq> None))"

text \<open>\<open>dep in results\<close>: a list or a dictionary is not hashable.\<close>

definition dep_in :: "results \<Rightarrow> json \<Rightarrow> error + bool" where
  "dep_in R dep =
     (case dep of
        JStr s \<Rightarrow> Inr (has_key R s)
      | JArr xs \<Rightarrow> Inl TypeError
      | JObj kv \<Rightarrow> Inl TypeError
      | _ \<Rightarrow> Inr False)"

text \<open>\<open>all(dep in results for dep in deps)\<close> stops at the first dependency not met.\<close>

fun deps_ready :: "results \<Rightarrow> json list \<Rightarrow> error + bool" where
  "deps_ready R [] = Inr True"
| "deps_ready R (dep # deps) =
     (case dep_in R dep of
        Inl e \<Rightarrow> Inl e
      | Inr ok \<Rightarrow> if ok then deps_ready R deps else Inr False)"


text \<open>The dispatch on the agent name (lines 112-128).\<close>

definition run_agent ::
  "services \<Rightarrow> results \<times> CitationTracker \<Rightarrow> json \<Rightarrow> json \<Rightarrow> string
   \<Rightarrow> (error + results) \<times> CitationTracker" where
  "run_agent S st agent_name task tick =
     (let R = fst st; T = snd st
      in if agent_name = JStr ''sec_researcher''
         then (Inr (R\<lparr>sec_researcher := Some (sec_run task tick)\<rparr>), T)
         else if agent_name = JStr ''market_data''
         then (case market_run S tick of
                 Inl e \<Rightarrow> (Inl e, T)
               | Inr md \<Rightarrow> (Inr (R\<lparr>market_data := Some md\<rparr>), T))
         else if agent_name = JStr ''analyst''
         then (case synthesize S T (sec_researcher R) (market_data R) tick of
                 (Inl e, T1) \<Rightarrow> (Inl e, T1)
               | (Inr report, T1) \<Rightarrow> (Inr (R\<lparr>analyst := Some report\<rparr>), T1))
         else if agent_name = JStr ''auditor''
         then (case analyst R of
                 None \<Rightarrow> (Inl KeyError, T)
               | Some report \<Rightarrow>
                   (case verify (arithmetic S) report ([] :: Citation list)
                           (case market_data R of None \<Rightarrow> [] | Some md \<Rightarrow> md) of
                      Inl e \<Rightarrow> (Inl e, T)
                    | Inr v \<Rightarrow> (Inr (R\<lparr>auditor := Some v\<rparr>), T)))
         else (Inr R, T))"

text \<open>One iteration of the loop over the steps (lines 101-128).\<close>

definition run_step ::
  "services \<Rightarrow> results \<times> CitationTracker \<Rightarrow> json \<Rightarrow> string
   \<Rightarrow> (error + results) \<times> CitationTracker" where
  "run_step S st step tick =
     (case py_getitem step ''agent'' of
        Inl e \<Rightarrow> (Inl e, snd st)
      | Inr agent_name \<Rightarrow>
     (case py_getitem step ''task'' of
        Inl e \<Rightarrow> (Inl e, snd st)
      | Inr task \<Rightarrow>
     (case bind_err (bind_err (py_getitem step ''dependencies'') py_iter) (deps_ready (fst st)) of
        Inl e \<Rightarrow> (Inl e, snd st)
      | Inr deps_ok \<Rightarrow>
          if \<not> deps_ok then (Inr (fst st), snd st)
          else run_agent S st agent_name task tick)))"

fun run_steps ::
  "services \<Rightarrow> results \<times> CitationTracker \<Rightarrow> json list \<Rightarrow> string
   \<Rightarrow> (error + results) \<times> CitationTracker" where
  "run_steps S st [] tick = (Inr (fst st), snd st)"
| "run_steps S st (step # steps) tick =
     (case run_step S st step tick of
        (Inl e, T1) \<Rightarrow> (Inl e, T1)
      | (Inr R1, T1) \<Rightarrow> run_steps S (R1, T1) steps tick)"

text \<open>
  \<open>execute_plan\<close> (lines 96-130).  \<open>T\<close> is the citation tracker of the analyst agent,
  which lives as long as the agent.
\<close>

definition execute_plan ::
  "services \<Rightarrow> CitationTracker \<Rightarrow> json \<Rightarrow> string \<Rightarrow> (error + results) \<times> CitationTracker" where
  "execute_plan S T plan tick =
     (case bind_err (py_getitem plan ''steps'') py_iter of
        Inl e \<Rightarrow> (Inl e, T)
      | Inr steps \<Rightarrow> run_steps S (empty_results, T) steps tick)"

section \<open>Example inputs\<close>

text \<open>A document with the given text under both attribute names and empty metadata.\<close>

definition doc_of :: "string \<Rightarrow> document" where
  "doc_of s =
     \<lparr>page_content_attr = Some s, content_attr = Some s, metadata_attr = Some [], str_repr = s\<rparr>"

text \<open>A vector store over three passages that returns the first \<open>k\<close> of them.\<close>

definition example_store :: "json \<Rightarrow> int \<Rightarrow> error + document list" where
  "example_store q k = Inr (take (nat k) [doc_of ''d1'', doc_of ''d2'', doc_of ''d3''])"

text \<open>
  Collaborators for the examples: a lexical index that scores document \<open>i\<close> with
  \<open>i\<close>, a cross-encoder that scores every pair 1, and the given answers of the
  language model and of the JSON parser.
\<close>

definition env_with :: "(error + string option) \<Rightarrow> (string \<Rightarrow> error + json) \<Rightarrow> env" where
  "env_with reply loads =
     \<lparr>BM25Okapi = (\<lambda>corpus q i. of_nat i),
      CrossEncoder = Inr (\<lambda>pairs. Inr (map (\<lambda>p. 1) pairs)),
      chat = (\<lambda>s u. reply),
      json_loads = loads\<rparr>"

text \<open>The language model is unreachable.\<close>

definition example_env :: env where
  "example_env = env_with (Inl ExternalError) (\<lambda>s. Inl JSONDecodeError)"

definition example_pipeline :: pipeline where
  "example_pipeline =
     init_pipeline example_env (Some example_store) [doc_of ''s1'', doc_of ''s2'', doc_of ''s3'']"

text \<open>The language model answers with a JSON array of four strings.\<close>

definition four_text :: string where
  "four_text = ''['' @ dquote @ ''a'' @ dquote @ '', '' @ dquote @ ''b'' @ dquote @ '', ''
               @ dquote @ ''c'' @ dquote @ '', '' @ dquote @ ''d'' @ dquote @ '']''"

definition four_env :: env where
  "four_env =
     env_with (Inr (Some four_text))
       (\<lambda>s. if s = four_text then Inr (JArr [JStr ''a'', JStr ''b'', JStr ''c'', JStr ''d''])
            else Inl JSONDecodeError)"

text \<open>Services for the examples: a market-data service with a complete snapshot.\<close>

definition example_info :: market_dict where
  "example_info =
     [(''currentPrice'', MFloat 100), (''marketCap'', MInt 100000000),
      (''sharesOutstanding'', MInt 1000000), (''fiftyTwoWeekHigh'', MFloat 120),
      (''fiftyTwoWeekLow'', MFloat 80), (''dividendYield'', MFloat (1 / 100))]"

text \<open>
  Arithmetic for the examples, on ints and finite floats and without rounding: what
  the interpreter computes wherever every float operand and result is a finite float
  that it holds exactly.  In an operation of a float and an int the int is converted
  to a float first, which raises \<open>OverflowError\<close> for the integers that round to
  \<open>2 ^ 1024\<close>; the quotient of two ints raises it when the quotient does.  A string
  times an int is the repeated string.  On every other operand the answer is
  \<open>TypeError\<close>, which is the interpreter's answer except on infinities, on
  not-a-number and in the comparison of two strings; none of them occurs in the
  examples.
\<close>

definition float_overflows :: "rat \<Rightarrow> bool" where
  "float_overflows x = (2 ^ 1024 - 2 ^ 970 \<le> \<bar>x\<bar>)"

fun exact_number :: "mval \<Rightarrow> rat option" where
  "exact_number (MInt i) = Some (of_int i)"
| "exact_number (MFloat r) = Some r"
| "exact_number v = None"

fun to_float :: "mval \<Rightarrow> error + rat" where
  "to_float (MInt i) = (if float_overflows (of_int i) then Inl OverflowError else Inr (of_int i))"
| "to_float (MFloat r) = Inr r"
| "to_float v = Inl TypeError"

definition float_op :: "(rat \<Rightarrow> rat \<Rightarrow> error + mval) \<Rightarrow> mval \<Rightarrow> mval \<Rightarrow> error + mval" where
  "float_op f a b =
     (if exact_number a = None \<or> exact_number b = None then Inl TypeError
      else bind_err (to_float a) (\<lambda>x. bind_err (to_float b) (\<lambda>y. f x y)))"

fun exact_mul :: "mval \<Rightarrow> mval \<Rightarrow> error + mval" where
  "exact_mul (MInt a) (MInt b) = Inr (MInt (a * b))"
| "exact_mul (MStr s) (MInt n) = Inr (MStr (concat (replicate (nat n) s)))"
| "exact_mul (MInt n) (MStr s) = Inr (MStr (concat (replicate (nat n) s)))"
| "exact_mul a b = float_op (\<lambda>x y. Inr (MFloat (x * y))) a b"

fun exact_sub :: "mval \<Rightarrow> mval \<Rightarrow> error + mval" where
  "exact_sub (MInt a) (MInt b) = Inr (MInt (a - b))"
| "exact_sub a b = float_op (\<lambda>x y. Inr (MFloat (x - y))) a b"

fun exact_abs :: "mval \<Rightarrow> error + mval" where
  "exact_abs (MInt a) = Inr (MInt \<bar>a\<bar>)"
| "exact_abs (MFloat r) = Inr (MFloat \<bar>r\<bar>)"
| "exact_abs v = Inl TypeError"

fun exact_truediv :: "mval \<Rightarrow> mval \<Rightarrow> error + mval" where
  "exact_truediv (MInt a) (MInt b) =
     (if b = 0 then Inl ZeroDivisionError
      else if float_overflows (of_int a / of_int b) then Inl OverflowError
      else Inr (MFloat (of_int a / of_int b)))"
| "exact_truediv a b =
     float_op (\<lambda>x y. if y = 0 then Inl ZeroDivisionError else Inr (MFloat (x / y))) a b"

definition exact_less :: "mval \<Rightarrow> mval \<Rightarrow> error + bool" where
  "exact_less a b =
     (case (exact_number a, exact_number b) of
        (Some x, Some y) \<Rightarrow> Inr (x < y)
      | _ \<Rightarrow> Inl TypeError)"

definition exact_arith :: arith where
  "exact_arith =
     \<lparr>py_mul = exact_mul, py_sub = exact_sub, py_abs = exact_abs,
      py_truediv = exact_truediv, py_less = exact_less\<rparr>"

text \<open>
  Services for the examples: a planner that answers in prose, a market-data service
  with a complete snapshot, a console that prints everything, and stand-ins for the
  formatted numbers.
\<close>

definition example_services :: services where
  "example_services =
     \<lparr>planner_run = (\<lambda>prompt. Inr (Some ''Sorry, I cannot help with that.'')),
      yf_info = (\<lambda>t. Inr example_info),
      now_isoformat = ''2024-01-01T00:00:00'',
      console_print = (\<lambda>line. None),
      decode_error_text = (\<lambda>txt. ''Expecting value: line 1 column 1 (char 0)''),
      arithmetic = exact_arith,
      fmt_2f = (\<lambda>v. Inr ''0.00''),
      fmt_comma_0f = (\<lambda>v. Inr ''0''),
      py_str = (\<lambda>v. Inr (case v of MStr s \<Rightarrow> s | _ \<Rightarrow> ''None''))\<rparr>"

text \<open>The example services with a planner that answers with the given text.\<close>

definition services_replying :: "string \<Rightarrow> services" where
  "services_replying reply = example_services\<lparr>planner_run := (\<lambda>prompt. Inr (Some reply))\<rparr>"

text \<open>A console that encodes its output as ASCII.\<close>

definition ascii_console :: "string \<Rightarrow> error option" where
  "ascii_console line =
     (if list_all (\<lambda>c. of_char c < (128::nat)) line then None else Some UnicodeEncodeError)"

text \<open>
  A reply of a thousand opening brackets, on which the parser exceeds the recursion
  limit, and a parser that raises \<open>RecursionError\<close> on it.
\<close>

definition deep_text :: string where
  "deep_text = replicate 1000 (CHR ''['')"

definition deep_env :: env where
  "deep_env =
     env_with (Inl ExternalError)
       (\<lambda>s. if s = deep_text then Inl RecursionError else Inl JSONDecodeError)"

text \<open>A reply in prose with a letter outside ASCII.\<close>

definition accent_text :: string where
  "accent_text = ''Voil'' @ [CHR 0xE0]"

text \<open>
  The reciprocal-rank contributions of one leg to a content: the sum of
  \<open>1 / (60 + rank)\<close> over the positions of the leg that hold it.
\<close>

definition leg_contribution :: "(document \<Rightarrow> string) \<Rightarrow> document list \<Rightarrow> string \<Rightarrow> rat" where
  "leg_contribution key leg c =
     sum_list (map (\<lambda>p. if key (snd p) = c then rrf (fst p) else 0) (enumerate1 leg))"

text \<open>
  A well-formed \<open>results_dict\<close>: the keys are distinct and each entry is stored under
  its own content.
\<close>

definition wf_dict :: "results_dict \<Rightarrow> bool" where
  "wf_dict d = (distinct (map fst d) \<and> list_all (\<lambda>p. content (snd p) = fst p) d)"

text \<open>A plan with the given steps.\<close>

definition plan_of :: "json list \<Rightarrow> json" where
  "plan_of steps = JObj [(''steps'', JArr steps)]"

text \<open>The length of a returned list, and the lengths of the lists of a returned dictionary.\<close>

definition returned_length :: "error + 'a list \<Rightarrow> nat option" where
  "returned_length r = (case r of Inl e \<Rightarrow> None | Inr xs \<Rightarrow> Some (length xs))"

definition returned_lengths :: "error + ('k \<times> 'a list) list \<Rightarrow> ('k \<times> nat) list option" where
  "returned_lengths r =
     (case r of Inl e \<Rightarrow> None | Inr m \<Rightarrow> Some (map (\<lambda>p. (fst p, length (snd p))) m))"

section \<open>Properties of the retrieval pipeline\<close>

subsection \<open>Sizes of the fused list\<close>

lemma length_setdefault: "length (setdefault k v d) \<le> Suc (length d)"
  by (simp add: setdefault_def)

lemma length_modify: "length (modify k f d) = length d"
  by (simp add: modify_def)

lemma length_dense_step: "length (dense_step d p) \<le> Suc (length d)"
  by (simp add: dense_step_def Let_def length_modify length_setdefault)

lemma length_sparse_step: "length (sparse_step d p) \<le> Suc (length d)"
  by (simp add: sparse_step_def Let_def length_modify length_setdefault)

lemma length_foldl_dense: "length (foldl dense_step d xs) \<le> length d + length xs"
proof (induction xs arbitrary: d)
  case Nil
  then show ?case by simp
next
  case (Cons x xs)
  have "length (foldl dense_step (dense_step d x) xs) \<le> length (dense_step d x) + length xs"
    by (rule Cons.IH)
  also have "\<dots> \<le> Suc (length d) + length xs"
    using length_dense_step [of d x] by simp
  finally show ?case by simp
qed

lemma length_foldl_sparse: "length (foldl sparse_step d xs) \<le> length d + length xs"
proof (induction xs arbitrary: d)
  case Nil
  then show ?case by simp
next
  case (Cons x xs)
  have "length (foldl sparse_step (sparse_step d x) xs) \<le> length (sparse_step d x) + length xs"
    by (rule Cons.IH)
  also have "\<dots> \<le> Suc (length d) + length xs"
    using length_sparse_step [of d x] by simp
  finally show ?case by simp
qed

lemma length_enumerate1: "length (enumerate1 xs) = length xs"
  by (simp add: enumerate1_def del: upt_Suc)

lemma length_merge_results: "length (merge_results ds ss) \<le> length ds + length ss"
proof -
  have "length (foldl sparse_step (foldl dense_step [] (enumerate1 ds)) (enumerate1 ss))
        \<le> length (foldl dense_step [] (enumerate1 ds)) + length ss"
    using length_foldl_sparse [of "foldl dense_step [] (enumerate1 ds)" "enumerate1 ss"]
    by (simp add: length_enumerate1)
  moreover have "length (foldl dense_step [] (enumerate1 ds)) \<le> length ds"
    using length_foldl_dense [of "[]" "enumerate1 ds"] by (simp add: length_enumerate1)
  ultimately show ?thesis
    by (simp add: merge_results_def Let_def sort_by_score_desc_def)
qed

lemma length_slice_from: "0 < k \<Longrightarrow> length (slice_from (- k) xs) \<le> nat k"
  by (auto simp: slice_from_def Let_def)

lemma set_argsort: "set (argsort xs) = {..<length xs}"
  by (auto simp: argsort_def)

text \<open>The indices of the sparse leg are indices of documents.\<close>

lemma sparse_indices_in_range:
  assumes "i \<in> set (rev (slice_from k (argsort (map f [0 ..< length docs]))))"
  shows "i < length docs"
proof -
  from assms have "i \<in> set (argsort (map f [0 ..< length docs]))"
    by (auto simp: slice_from_def Let_def dest: in_set_dropD)
  then show ?thesis by (simp add: set_argsort)
qed

lemma length_sparse_leg: "0 < k \<Longrightarrow> length (sparse_leg idx docs q k) \<le> nat k"
  by (simp add: sparse_leg_def Let_def length_slice_from)

lemma hybrid_search_length:
  assumes "0 < k" and "hybrid_search P q k = Inr rs"
    and "\<forall>vs ds. vector_store P = Some vs \<longrightarrow> vs q k = Inr ds \<longrightarrow> length ds \<le> nat k"
  shows "length rs \<le> 2 * nat k"
proof -
  from assms(2) obtain ds ss where
    d: "(case vector_store P of None \<Rightarrow> Inr [] | Some vs \<Rightarrow> vs q k) = Inr ds" and
    s: "(case bm25 P of None \<Rightarrow> Inr [] | Some idx \<Rightarrow>
           if documents P = [] then Inr []
           else (case q of JStr s \<Rightarrow> Inr (sparse_leg idx (documents P) s k)
                 | _ \<Rightarrow> Inl AttributeError)) = Inr ss" and
    r: "rs = merge_results ds ss"
    by (auto simp: hybrid_search_def bind_err_def split: sum.splits)
  have "length ds \<le> nat k"
    using d assms(3) by (auto split: option.splits)
  moreover have "length ss \<le> nat k"
    using s length_sparse_leg [OF assms(1)]
    by (auto split: option.splits if_splits json.splits)
  ultimately show ?thesis
    using length_merge_results [of ds ss] r by simp
qed

lemma in_set_update:
  "p \<in> set (AList.update k v al) \<Longrightarrow> p = (k, v) \<or> p \<in> set al"
  by (induction al) (auto split: if_splits)

lemma compare_loop_lengths:
  assumes "compare_loop P query acc years = Inr m"
    and "\<forall>p \<in> set acc. length (snd p) \<le> 10"
    and "\<forall>vs q ds. vector_store P = Some vs \<longrightarrow> vs q 5 = Inr ds \<longrightarrow> length ds \<le> 5"
  shows "\<forall>p \<in> set m. length (snd p) \<le> 10"
  using assms
proof (induction years arbitrary: acc)
  case Nil
  then show ?case by simp
next
  case (Cons year years)
  from Cons.prems(1) obtain results where
    h: "hybrid_search P (JStr (filtered_query query year)) 5 = Inr results" and
    l: "compare_loop P query (AList.update year results acc) years = Inr m"
    by (auto split: sum.splits)
  have "length results \<le> 2 * nat 5"
    by (rule hybrid_search_length [OF _ h]) (use Cons.prems(3) in auto)
  then have "\<forall>p \<in> set (AList.update year results acc). length (snd p) \<le> 10"
    using Cons.prems(2) by (auto dest!: in_set_update)
  from Cons.IH [OF l this Cons.prems(3)] show ?case .
qed

text \<open>
  Claim C2, as the code has it.  Hybrid search does not cut the fused list: each leg
  gives at most \<open>k\<close> results and fusion keeps every distinct content.  For
  \<open>k \<ge> 1\<close> and a vector store that returns at most \<open>k\<close> documents, a returned
  list has at most \<open>2k\<close> results, and every list in the dictionary returned by
  \<open>compare_across_years\<close> has at most 10.
\<close>

theorem hybrid_search_bound:
  assumes "\<forall>vs q k ds. vector_store P = Some vs \<longrightarrow> vs q k = Inr ds \<longrightarrow> length ds \<le> nat k"
  shows "(0 < k \<longrightarrow> hybrid_search P q k = Inr rs \<longrightarrow> length rs \<le> 2 * nat k)
       \<and> (compare_across_years P query years = Inr m \<longrightarrow> (y, ys) \<in> set m \<longrightarrow> length ys \<le> 10)"
proof (intro conjI impI)
  assume "0 < k" and "hybrid_search P q k = Inr rs"
  then show "length rs \<le> 2 * nat k"
    using assms by (intro hybrid_search_length) auto
next
  assume c: "compare_across_years P query years = Inr m" and y: "(y, ys) \<in> set m"
  have "\<forall>vs q ds. vector_store P = Some vs \<longrightarrow> vs q 5 = Inr ds \<longrightarrow> length ds \<le> 5"
    using assms by fastforce
  from compare_loop_lengths [OF c [unfolded compare_across_years_def] _ this] y
  show "length ys \<le> 10" by fastforce
qed

text \<open>The example store returns at most \<open>k\<close> documents.\<close>

lemma example_store_ok:
  "\<forall>vs q k ds. vector_store example_pipeline = Some vs \<longrightarrow> vs q k = Inr ds \<longrightarrow> length ds \<le> nat k"
  by (auto simp: example_pipeline_def init_pipeline_def example_store_def)

text \<open>
  Claim C2 as stated fails: with three passages from the vector store and three other
  documents in the corpus, hybrid search with \<open>k = 5\<close> returns six results, and so
  does the entry of the year in \<open>compare_across_years\<close>.
\<close>

theorem hybrid_search_exceeds_k:
  "returned_length (hybrid_search example_pipeline (JStr ''risk'') 5) = Some 6
   \<and> returned_lengths (compare_across_years example_pipeline ''risk'' [''2023'']) = Some [(''2023'', 6)]"
  by code_simp

text \<open>The bound of claim C2 at the example pipeline.\<close>

theorem hybrid_search_bound_witness:
  "(\<exists>rs. hybrid_search example_pipeline (JStr ''risk'') 5 = Inr rs \<and> length rs \<le> 2 * nat 5)
   \<and> (\<exists>m ys. compare_across_years example_pipeline ''risk'' [''2023''] = Inr m
          \<and> (''2023'', ys) \<in> set m \<and> length ys \<le> 10)"
proof (intro conjI)
  note ok = example_store_ok
  have "returned_length (hybrid_search example_pipeline (JStr ''risk'') 5) = Some 6"
    by code_simp
  then obtain rs where h: "hybrid_search example_pipeline (JStr ''risk'') 5 = Inr rs"
    by (auto simp: returned_length_def split: sum.splits)
  with hybrid_search_bound [OF ok, of 5 "JStr ''risk''" rs]
  show "\<exists>rs. hybrid_search example_pipeline (JStr ''risk'') 5 = Inr rs \<and> length rs \<le> 2 * nat 5"
    by auto
  have "returned_lengths (compare_across_years example_pipeline ''risk'' [''2023''])
        = Some [(''2023'', 6)]"
    by code_simp
  then obtain m ys where c: "compare_across_years example_pipeline ''risk'' [''2023''] = Inr m"
    and y: "(''2023'', ys) \<in> set m"
    by (auto simp: returned_lengths_def split: sum.splits)
  with hybrid_search_bound [OF ok, of _ _ _ "''risk''" "[''2023'']" m "''2023''" ys]
  show "\<exists>m ys. compare_across_years example_pipeline ''risk'' [''2023''] = Inr m
          \<and> (''2023'', ys) \<in> set m \<and> length ys \<le> 10"
    by auto
qed

subsection \<open>Scores and tags given by fusion\<close>

text \<open>What a step of either loop does to the entry of a content.\<close>

lemma map_of_modify:
  "map_of (modify k f d) c = (if c = k then map_option f (map_of d c) else map_of d c)"
  by (induction d) (auto simp: modify_def)

lemma map_of_setdefault:
  "map_of (setdefault k v d) c = (if c = k \<and> map_of d k = None then Some v else map_of d c)"
  by (auto simp: setdefault_def map_add_def split: option.splits)

lemma keys_modify: "map fst (modify k f d) = map fst d"
  by (induction d) (auto simp: modify_def)

lemma wf_modify:
  assumes "wf_dict d" and "\<And>e. content (f e) = content e"
  shows "wf_dict (modify k f d)"
proof -
  have "list_all (\<lambda>p. content (snd p) = fst p) (modify k f d)"
    using assms by (auto simp: wf_dict_def modify_def list_all_iff)
  then show ?thesis
    using assms(1) by (simp add: wf_dict_def keys_modify)
qed

lemma wf_setdefault:
  assumes "wf_dict d" and "content v = k"
  shows "wf_dict (setdefault k v d)"
  using assms by (auto simp: wf_dict_def setdefault_def map_of_eq_None_iff)

lemma wf_dense_step: "wf_dict d \<Longrightarrow> wf_dict (dense_step d p)"
  by (simp add: dense_step_def Let_def wf_modify wf_setdefault)

lemma wf_sparse_step: "wf_dict d \<Longrightarrow> wf_dict (sparse_step d p)"
  by (simp add: sparse_step_def Let_def wf_modify wf_setdefault)

lemma wf_foldl_dense: "wf_dict d \<Longrightarrow> wf_dict (foldl dense_step d xs)"
  by (induction xs arbitrary: d) (simp_all add: wf_dense_step)

lemma wf_foldl_sparse: "wf_dict d \<Longrightarrow> wf_dict (foldl sparse_step d xs)"
  by (induction xs arbitrary: d) (simp_all add: wf_sparse_step)

lemma wf_lookup:
  assumes "wf_dict d" and "r \<in> set (map snd d)"
  shows "map_of d (content r) = Some r"
proof -
  from assms(2) obtain k where k: "(k, r) \<in> set d" by auto
  with assms(1) have "content r = k" by (auto simp: wf_dict_def list_all_iff)
  moreover from assms(1) k have "map_of d k = Some r" by (simp add: wf_dict_def)
  ultimately show ?thesis by simp
qed

text \<open>The score and the tag stored for a content, if any.\<close>

lemma dense_step_entry:
  "map_option (\<lambda>e. (score e, source e)) (map_of (dense_step d (n, x)) c) =
     (if c = dense_content x
      then Some ((case map_of d c of None \<Rightarrow> 0 | Some e \<Rightarrow> score e) + rrf n, ''hybrid'')
      else map_option (\<lambda>e. (score e, source e)) (map_of d c))"
  by (auto simp: dense_step_def Let_def map_of_modify map_of_setdefault split: option.splits)

lemma sparse_step_entry:
  "map_option (\<lambda>e. (score e, source e)) (map_of (sparse_step d (n, x)) c) =
     (if c = sparse_content x
      then Some ((case map_of d c of None \<Rightarrow> 0 | Some e \<Rightarrow> score e) + rrf n,
                 (case map_of d c of None \<Rightarrow> ''sparse''
                  | Some e \<Rightarrow> if source e = ''dense'' then ''hybrid'' else source e))
      else map_option (\<lambda>e. (score e, source e)) (map_of d c))"
  by (auto simp: sparse_step_def Let_def map_of_modify map_of_setdefault split: option.splits)

lemma zip_upt_Cons:
  "zip [n ..< n + length (x # xs)] (x # xs) = (n, x) # zip [Suc n ..< Suc n + length xs] xs"
  by (simp add: upt_conv_Cons del: upt_Suc)

lemma sum_list_zero:
  "(\<And>y. y \<in> set ys \<Longrightarrow> f y = (0::rat)) \<Longrightarrow> sum_list (map f ys) = 0"
  by (induction ys) auto

lemma no_contribution:
  "c \<notin> key ` set xs \<Longrightarrow>
   sum_list (map (\<lambda>p. if key (snd p) = c then rrf (fst p) else 0) (zip ns xs)) = (0::rat)"
  by (rule sum_list_zero) (auto dest: set_zip_rightD)

lemma foldl_dense_entry:
  "map_option (\<lambda>e. (score e, source e))
     (map_of (foldl dense_step d (zip [n ..< n + length xs] xs)) c) =
     (if c \<in> dense_content ` set xs
      then Some ((case map_of d c of None \<Rightarrow> 0 | Some e \<Rightarrow> score e)
                 + sum_list (map (\<lambda>p. if dense_content (snd p) = c then rrf (fst p) else 0)
                               (zip [n ..< n + length xs] xs)),
                 ''hybrid'')
      else map_option (\<lambda>e. (score e, source e)) (map_of d c))"
proof (induction xs arbitrary: d n)
  case Nil
  then show ?case by simp
next
  case (Cons x xs)
  let ?d = "dense_step d (n, x)"
  note step = dense_step_entry [of d n x c]
  have sc: "(case map_of ?d c of None \<Rightarrow> 0 | Some e \<Rightarrow> score e) =
            (if c = dense_content x
             then (case map_of d c of None \<Rightarrow> 0 | Some e \<Rightarrow> score e) + rrf n
             else (case map_of d c of None \<Rightarrow> 0 | Some e \<Rightarrow> score e))"
    using step by (auto split: option.splits if_splits)
  show ?case
    unfolding zip_upt_Cons foldl_Cons Cons.IH [of ?d "Suc n"] sc
    using step
    by (auto simp: no_contribution [where key = dense_content] split: option.splits)
qed

lemma foldl_sparse_entry:
  "map_option (\<lambda>e. (score e, source e))
     (map_of (foldl sparse_step d (zip [n ..< n + length xs] xs)) c) =
     (if c \<in> sparse_content ` set xs
      then Some ((case map_of d c of None \<Rightarrow> 0 | Some e \<Rightarrow> score e)
                 + sum_list (map (\<lambda>p. if sparse_content (snd p) = c then rrf (fst p) else 0)
                               (zip [n ..< n + length xs] xs)),
                 (case map_of d c of None \<Rightarrow> ''sparse''
                  | Some e \<Rightarrow> if source e = ''dense'' then ''hybrid'' else source e))
      else map_option (\<lambda>e. (score e, source e)) (map_of d c))"
proof (induction xs arbitrary: d n)
  case Nil
  then show ?case by simp
next
  case (Cons x xs)
  let ?d = "sparse_step d (n, x)"
  note step = sparse_step_entry [of d n x c]
  have sc: "(case map_of ?d c of None \<Rightarrow> 0 | Some e \<Rightarrow> score e) =
            (if c = sparse_content x
             then (case map_of d c of None \<Rightarrow> 0 | Some e \<Rightarrow> score e) + rrf n
             else (case map_of d c of None \<Rightarrow> 0 | Some e \<Rightarrow> score e))"
    using step by (auto split: option.splits if_splits)
  have so: "(case map_of ?d c of None \<Rightarrow> ''sparse''
             | Some e \<Rightarrow> if source e = ''dense'' then ''hybrid'' else source e) =
            (case map_of d c of None \<Rightarrow> ''sparse''
             | Some e \<Rightarrow> if source e = ''dense'' then ''hybrid'' else source e)"
    using step by (auto split: option.splits if_splits)
  show ?case
    unfolding zip_upt_Cons foldl_Cons Cons.IH [of ?d "Suc n"] sc so
    using step
    by (auto simp: no_contribution [where key = sparse_content] split: option.splits)
qed


lemma enumerate1_zip: "enumerate1 xs = zip [1 ..< 1 + length xs] xs"
  by (simp add: enumerate1_def)

text \<open>
  What fusion returns for any two legs.  The score of a result is the sum of the
  contributions of both legs to its content.  Its tag is hybrid as soon as the dense
  leg holds its content, whether or not the sparse leg does, and sparse otherwise:
  no result is tagged dense.
\<close>

lemma fusion_scores_and_tags:
  assumes "r \<in> set (merge_results ds ss)"
  shows "score r = leg_contribution dense_content ds (content r)
                   + leg_contribution sparse_content ss (content r)"
    and "source r = (if content r \<in> dense_content ` set ds then ''hybrid'' else ''sparse'')"
    and "content r \<in> dense_content ` set ds \<union> sparse_content ` set ss"
proof -
  let ?c = "content r"
  let ?d1 = "foldl dense_step [] (enumerate1 ds)"
  let ?d2 = "foldl sparse_step ?d1 (enumerate1 ss)"
  have "wf_dict []" by (simp add: wf_dict_def)
  then have wf: "wf_dict ?d2" by (intro wf_foldl_sparse wf_foldl_dense)
  from assms have "r \<in> set (map snd ?d2)"
    by (simp add: merge_results_def Let_def sort_by_score_desc_def)
  from wf_lookup [OF wf this] have r: "map_of ?d2 ?c = Some r" .
  have e1: "map_option (\<lambda>e. (score e, source e)) (map_of ?d1 ?c) =
        (if ?c \<in> dense_content ` set ds
         then Some (leg_contribution dense_content ds ?c, ''hybrid'') else None)"
    using foldl_dense_entry [of "[]" 1 ds ?c]
    by (simp add: enumerate1_zip leg_contribution_def)
  have e2: "Some (score r, source r) =
        (if ?c \<in> sparse_content ` set ss
         then Some ((case map_of ?d1 ?c of None \<Rightarrow> 0 | Some e \<Rightarrow> score e)
                    + leg_contribution sparse_content ss ?c,
                    (case map_of ?d1 ?c of None \<Rightarrow> ''sparse''
                     | Some e \<Rightarrow> if source e = ''dense'' then ''hybrid'' else source e))
         else map_option (\<lambda>e. (score e, source e)) (map_of ?d1 ?c))"
    using foldl_sparse_entry [of ?d1 1 ss ?c] r
    by (simp add: enumerate1_zip leg_contribution_def)
  have z1: "?c \<notin> dense_content ` set ds \<Longrightarrow> leg_contribution dense_content ds ?c = 0"
    by (simp add: leg_contribution_def enumerate1_zip no_contribution)
  have z2: "?c \<notin> sparse_content ` set ss \<Longrightarrow> leg_contribution sparse_content ss ?c = 0"
    by (simp add: leg_contribution_def enumerate1_zip no_contribution)
  from e1 e2 z1 z2
  show "score r = leg_contribution dense_content ds ?c + leg_contribution sparse_content ss ?c"
    by (auto split: if_splits option.splits)
  from e1 e2
  show "source r = (if ?c \<in> dense_content ` set ds then ''hybrid'' else ''sparse'')"
    by (auto split: if_splits option.splits)
  from e1 e2
  show "?c \<in> dense_content ` set ds \<union> sparse_content ` set ss"
    by (auto split: if_splits option.splits)
qed

text \<open>
  Claim C1, where the code departs from it.  A result that only the dense leg returns
  does not keep the tag dense: for a dense leg of one document and an empty sparse
  leg, fusion returns one result, with the score 1/61 of rank 1 and the tag hybrid.
\<close>

theorem dense_only_tagged_hybrid:
  "merge_results [d] [] =
     [\<lparr>content = dense_content d, metadata = result_metadata d, score = 1 / 61,
       source = ''hybrid''\<rparr>]"
  by (simp add: merge_results_def enumerate1_def dense_step_def setdefault_def modify_def
      rrf_def sort_by_score_desc_def Let_def)

subsection \<open>Query decomposition\<close>

text \<open>
  Claim C5, as the code has it.  \<open>decompose_query\<close> returns a non-empty list: either
  the one-element list of the query, or the non-empty array the parser made of the
  model's answer, whatever its length.
\<close>

theorem decompose_nonempty:
  "1 \<le> length (decompose_query E query)
   \<and> (decompose_query E query = [JStr query]
      \<or> (\<exists>c. chat E decompose_system (decompose_user query) = Inr (Some c)
             \<and> json_loads E (py_strip c) = Inr (JArr (decompose_query E query))))"
  by (auto simp: decompose_query_def split: sum.splits option.splits json.splits list.splits)

text \<open>
  Claim C5 as stated fails: when the model answers with an array of four strings,
  \<open>decompose_query\<close> returns all four.
\<close>

theorem decompose_returns_four:
  "length (decompose_query four_env ''What are the risks?'') = 4"
  by code_simp

text \<open>
  Claim C6.  When the model call raises, or its answer has no content, or the parser
  raises, or the parsed value is not a non-empty array, \<open>decompose_query\<close> returns the
  one-element list of the query.  The function has no error result: every exception
  is caught inside it.
\<close>

theorem decompose_fallback:
  "(chat E decompose_system (decompose_user query) = Inl e
      \<longrightarrow> decompose_query E query = [JStr query])
   \<and> (chat E decompose_system (decompose_user query) = Inr None
      \<longrightarrow> decompose_query E query = [JStr query])
   \<and> (chat E decompose_system (decompose_user query) = Inr (Some c)
      \<longrightarrow> json_loads E (py_strip c) = Inl e'
      \<longrightarrow> decompose_query E query = [JStr query])
   \<and> (chat E decompose_system (decompose_user query) = Inr (Some c)
      \<longrightarrow> json_loads E (py_strip c) = Inr v
      \<longrightarrow> (\<forall>x xs. v \<noteq> JArr (x # xs))
      \<longrightarrow> decompose_query E query = [JStr query])"
  by (auto simp: decompose_query_def split: sum.splits option.splits json.splits list.splits)

text \<open>
  Claim C6 at four collaborators: a model that is unreachable, one that answers without
  content, one that answers with text that is not JSON, and one that answers with an
  empty array.
\<close>

theorem decompose_fallback_witness:
  "decompose_query (env_with (Inl ExternalError) (\<lambda>s. Inl JSONDecodeError)) ''q'' = [JStr ''q'']
   \<and> decompose_query (env_with (Inr None) (\<lambda>s. Inl JSONDecodeError)) ''q'' = [JStr ''q'']
   \<and> decompose_query (env_with (Inr (Some ''Sure, here you go''))
                         (\<lambda>s. Inl JSONDecodeError)) ''q'' = [JStr ''q'']
   \<and> decompose_query (env_with (Inr (Some ''[]'')) (\<lambda>s. Inr (JArr []))) ''q'' = [JStr ''q'']"
proof (intro conjI)
  show "decompose_query (env_with (Inl ExternalError) (\<lambda>s. Inl JSONDecodeError)) ''q'' = [JStr ''q'']"
    using decompose_fallback [of "env_with (Inl ExternalError) (\<lambda>s. Inl JSONDecodeError)" "''q''" ExternalError]
    by (simp add: env_with_def)
  show "decompose_query (env_with (Inr None) (\<lambda>s. Inl JSONDecodeError)) ''q'' = [JStr ''q'']"
    using decompose_fallback [of "env_with (Inr None) (\<lambda>s. Inl JSONDecodeError)" "''q''"]
    by (simp add: env_with_def)
  show "decompose_query (env_with (Inr (Some ''Sure, here you go'')) (\<lambda>s. Inl JSONDecodeError)) ''q''
        = [JStr ''q'']"
    using decompose_fallback [of "env_with (Inr (Some ''Sure, here you go'')) (\<lambda>s. Inl JSONDecodeError)"
        "''q''" _ "''Sure, here you go''" JSONDecodeError]
    by (simp add: env_with_def)
  show "decompose_query (env_with (Inr (Some ''[]'')) (\<lambda>s. Inr (JArr []))) ''q'' = [JStr ''q'']"
    using decompose_fallback [of "env_with (Inr (Some ''[]'')) (\<lambda>s. Inr (JArr []))"
        "''q''" _ "''[]''" _ "JArr []"]
    by (simp add: env_with_def)
qed

subsection \<open>The two levels of top-K\<close>

lemma length_sub_query_results:
  "sub_query_results E P sq = (Inr top5, P1) \<Longrightarrow> length top5 \<le> 5"
  by (auto simp: sub_query_results_def split: sum.splits prod.splits if_splits)

lemma length_retrieve_loop:
  "retrieve_loop E P acc sqs = (Inr all_results, P2)
   \<Longrightarrow> length all_results \<le> length acc + 5 * length sqs"
proof (induction sqs arbitrary: P acc)
  case Nil
  then show ?case by simp
next
  case (Cons sq sqs)
  from Cons.prems obtain top5 P1 where
    s: "sub_query_results E P sq = (Inr top5, P1)" and
    l: "retrieve_loop E P1 (acc @ top5) sqs = (Inr all_results, P2)"
    by (auto split: sum.splits prod.splits)
  from Cons.IH [OF l] length_sub_query_results [OF s] show ?case by simp
qed

text \<open>
  Claim C4.  A list returned by \<open>retrieve\<close> has at most 10 results; the slice one
  sub-query appends to \<open>all_results\<close> has at most 5, so that the list before
  deduplication has at most 5 for each sub-query.
\<close>

theorem retrieve_top_k:
  "(retrieve E P query = (Inr rs, P') \<longrightarrow> length rs \<le> 10)
   \<and> (sub_query_results E P sq = (Inr top5, P1) \<longrightarrow> length top5 \<le> 5)
   \<and> (retrieve_loop E P [] sqs = (Inr all_results, P2) \<longrightarrow> length all_results \<le> 5 * length sqs)"
proof (intro conjI impI)
  assume "retrieve E P query = (Inr rs, P')"
  then show "length rs \<le> 10"
    by (auto simp: retrieve_def Let_def split: sum.splits prod.splits)
next
  assume "sub_query_results E P sq = (Inr top5, P1)"
  then show "length top5 \<le> 5" by (rule length_sub_query_results)
next
  assume "retrieve_loop E P [] sqs = (Inr all_results, P2)"
  from length_retrieve_loop [OF this] show "length all_results \<le> 5 * length sqs" by simp
qed

text \<open>Claim C4 at the example pipeline, where the model is unreachable.\<close>

theorem retrieve_top_k_witness:
  "(\<exists>rs P'. retrieve example_env example_pipeline ''risk'' = (Inr rs, P') \<and> length rs \<le> 10)
   \<and> (\<exists>top5 P1. sub_query_results example_env example_pipeline (JStr ''risk'') = (Inr top5, P1)
          \<and> length top5 \<le> 5)
   \<and> (\<exists>all_results P2.
          retrieve_loop example_env example_pipeline [] [JStr ''risk''] = (Inr all_results, P2)
          \<and> length all_results \<le> 5 * length [JStr ''risk''])"
proof (intro conjI)
  have "returned_length (fst (retrieve example_env example_pipeline ''risk'')) = Some 5"
    by code_simp
  then obtain rs where "fst (retrieve example_env example_pipeline ''risk'') = Inr rs"
    by (auto simp: returned_length_def split: sum.splits)
  then have r: "retrieve example_env example_pipeline ''risk''
                = (Inr rs, snd (retrieve example_env example_pipeline ''risk''))"
    by (metis prod.collapse)
  with retrieve_top_k [of example_env example_pipeline "''risk''" rs]
  show "\<exists>rs P'. retrieve example_env example_pipeline ''risk'' = (Inr rs, P') \<and> length rs \<le> 10"
    by blast
  have "returned_length (fst (sub_query_results example_env example_pipeline (JStr ''risk''))) = Some 5"
    by code_simp
  then obtain t where "fst (sub_query_results example_env example_pipeline (JStr ''risk'')) = Inr t"
    by (auto simp: returned_length_def split: sum.splits)
  then have s: "sub_query_results example_env example_pipeline (JStr ''risk'')
                = (Inr t, snd (sub_query_results example_env example_pipeline (JStr ''risk'')))"
    by (metis prod.collapse)
  with retrieve_top_k [of example_env example_pipeline _ _ _ "JStr ''risk''" t]
  show "\<exists>top5 P1. sub_query_results example_env example_pipeline (JStr ''risk'') = (Inr top5, P1)
          \<and> length top5 \<le> 5"
    by blast
  have "returned_length (fst (retrieve_loop example_env example_pipeline [] [JStr ''risk''])) = Some 5"
    by code_simp
  then obtain a where "fst (retrieve_loop example_env example_pipeline [] [JStr ''risk'']) = Inr a"
    by (auto simp: returned_length_def split: sum.splits)
  then have l: "retrieve_loop example_env example_pipeline [] [JStr ''risk'']
                = (Inr a, snd (retrieve_loop example_env example_pipeline [] [JStr ''risk'']))"
    by (metis prod.collapse)
  with retrieve_top_k [of example_env example_pipeline _ _ _ _ _ _ "[JStr ''risk'']" a]
  show "\<exists>all_results P2.
          retrieve_loop example_env example_pipeline [] [JStr ''risk''] = (Inr all_results, P2)
          \<and> length all_results \<le> 5 * length [JStr ''risk'']"
    by blast
qed

subsection \<open>Lazy loading of the cross-encoder\<close>

lemma sub_query_results_empty:
  "hybrid_search P sq 20 = Inr [] \<Longrightarrow> sub_query_results E P sq = (Inr [], P)"
  by (simp add: sub_query_results_def)

lemma hybrid_search_no_index:
  "vector_store P = None \<Longrightarrow> documents P = [] \<Longrightarrow> hybrid_search P sq k = Inr []"
  by (simp add: hybrid_search_def bind_err_def merge_results_def enumerate1_def
      sort_by_score_desc_def split: option.splits)

lemma retrieve_loop_no_index:
  "vector_store P = None \<Longrightarrow> documents P = [] \<Longrightarrow> retrieve_loop E P acc sqs = (Inr acc, P)"
  by (induction sqs arbitrary: acc)
     (simp_all add: sub_query_results_empty hybrid_search_no_index)

lemma rerank_empty:
  assumes "reranker_state P = None" and "CrossEncoder E = Inr m" and "m [] = Inr scores"
  shows "rerank E P query [] =
           (Inr [], P\<lparr>reranker_state := Some m, predict_calls := Suc (predict_calls P)\<rparr>)"
  using assms by (simp add: rerank_def reranker_def sort_by_score_desc_def)

text \<open>
  Claim C9, as the code has it.  The guard against an empty result list is in
  \<open>retrieve\<close>: a sub-query whose hybrid search finds nothing is not re-ranked and
  leaves the pipeline as it was, so that retrieval over a pipeline without vector
  store and documents returns the empty list with the model neither loaded nor
  called.  \<open>rerank\<close> itself has no guard: on an empty list it loads the model on
  first use, calls it with an empty batch and returns the empty list.
\<close>

theorem rerank_guard_in_retrieve:
  "(hybrid_search P sq 20 = Inr [] \<longrightarrow> sub_query_results E P sq = (Inr [], P))
   \<and> (vector_store P = None \<longrightarrow> documents P = [] \<longrightarrow> retrieve E P query = (Inr [], P))
   \<and> (reranker_state P = None \<longrightarrow> CrossEncoder E = Inr m \<longrightarrow> m [] = Inr scores
      \<longrightarrow> rerank E P q [] =
            (Inr [], P\<lparr>reranker_state := Some m, predict_calls := Suc (predict_calls P)\<rparr>))"
  by (simp add: sub_query_results_empty rerank_empty retrieve_def retrieve_loop_no_index
      deduplicate_def)

text \<open>
  Claim C9 as stated fails: \<open>rerank\<close> on an empty list, in a pipeline that has not
  loaded the model, loads it and calls it once.
\<close>

theorem rerank_empty_loads_model:
  "reranker_state (init_pipeline example_env None []) = None
   \<and> reranker_state (snd (rerank example_env (init_pipeline example_env None []) (JStr ''risk'') []))
       \<noteq> None
   \<and> predict_calls (snd (rerank example_env (init_pipeline example_env None []) (JStr ''risk'') []))
       = 1"
  by (simp add: rerank_def reranker_def init_pipeline_def example_env_def env_with_def)

text \<open>Claim C9 at a pipeline without vector store and documents.\<close>

theorem rerank_guard_in_retrieve_witness:
  "fst (retrieve example_env (init_pipeline example_env None []) ''risk'') = Inr []
   \<and> reranker_state (snd (retrieve example_env (init_pipeline example_env None []) ''risk'')) = None
   \<and> predict_calls (snd (retrieve example_env (init_pipeline example_env None []) ''risk'')) = 0
   \<and> fst (sub_query_results example_env (init_pipeline example_env None []) (JStr ''risk'')) = Inr []
   \<and> fst (rerank example_env (init_pipeline example_env None []) (JStr ''risk'') []) = Inr []"
proof -
  let ?P = "init_pipeline example_env None []"
  have v: "vector_store ?P = None" and d: "documents ?P = []" and n: "reranker_state ?P = None"
    and p: "predict_calls ?P = 0"
    by (simp_all add: init_pipeline_def)
  have h: "hybrid_search ?P (JStr ''risk'') 20 = Inr []"
    by (rule hybrid_search_no_index [OF v d])
  have c: "CrossEncoder example_env = Inr (\<lambda>pairs. Inr (map (\<lambda>p. 1) pairs))"
    by (simp add: example_env_def env_with_def)
  note t = rerank_guard_in_retrieve [of ?P "JStr ''risk''" example_env "''risk''"
      "\<lambda>pairs. Inr (map (\<lambda>p. 1) pairs)" "[]" "JStr ''risk''"]
  from t v d have "retrieve example_env ?P ''risk'' = (Inr [], ?P)" by blast
  moreover from t h have "sub_query_results example_env ?P (JStr ''risk'') = (Inr [], ?P)" by blast
  moreover from t n c have "fst (rerank example_env ?P (JStr ''risk'') []) = Inr []" by simp
  ultimately show ?thesis using n p by simp
qed

section \<open>Properties of the agents\<close>

subsection \<open>The fallback plan\<close>

lemma py_strip_id:
  assumes "s \<noteq> []" and "\<not> is_space (hd s)" and "\<not> is_space (last s)"
  shows "py_strip s = s"
proof -
  have keep: "dropWhile is_space xs = xs" if "xs \<noteq> []" "\<not> is_space (hd xs)" for xs
    using that by (cases xs) simp_all
  from assms(1,2) have a: "dropWhile is_space s = s" by (rule keep)
  from assms(1,3) have b: "dropWhile is_space (rev s) = rev s"
    by (intro keep) (simp_all add: hd_rev)
  show ?thesis by (simp add: py_strip_def a b)
qed

lemma deep_text_unchanged: "strip_fence (py_strip deep_text) = deep_text"
proof -
  have h: "deep_text \<noteq> []" "hd deep_text = CHR ''[''" "last deep_text = CHR ''[''"
    unfolding deep_text_def by (simp_all add: hd_replicate)
  have s: "py_strip deep_text = deep_text"
    by (rule py_strip_id) (simp_all add: h is_space_def)
  have "take 3 deep_text = replicate 3 (CHR ''['')" by (simp add: deep_text_def)
  then have "take 3 deep_text \<noteq> fence" by (simp add: fence_def numeral_3_eq_3)
  then show ?thesis by (simp add: s strip_fence_def)
qed

lemma accent_text_unchanged: "strip_fence (py_strip accent_text) = accent_text"
  by (simp add: accent_text_def py_strip_def strip_fence_def fence_def is_space_def)

text \<open>
  Claim C7 as stated fails: there are replies of the planner that do not parse and
  for which \<open>create_plan\<close> raises.  On a reply of a thousand opening brackets the
  parser raises \<open>RecursionError\<close>, which the handler of \<open>JSONDecodeError\<close> does
  not catch.  On a reply in prose with a letter outside ASCII the handler is entered,
  and its second \<open>print\<close> raises \<open>UnicodeEncodeError\<close> on a console that encodes
  as ASCII.
\<close>

theorem create_plan_raises:
  "create_plan deep_env (services_replying deep_text) ''Analyze ACME'' = Inl RecursionError
   \<and> json_loads example_env (strip_fence (py_strip accent_text)) = Inl JSONDecodeError
   \<and> create_plan example_env ((services_replying accent_text)\<lparr>console_print := ascii_console\<rparr>)
        ''Analyze ACME'' = Inl UnicodeEncodeError"
proof -
  have "ascii_console (''Raw content: '' @ take 200 accent_text) = Some UnicodeEncodeError"
    by (simp add: ascii_console_def accent_text_def)
  moreover have "ascii_console (''Warning: Could not parse plan JSON: ''
                   @ ''Expecting value: line 1 column 1 (char 0)'') = None"
    by (simp add: ascii_console_def)
  ultimately show ?thesis
    by (simp add: create_plan_def bind_err_def services_replying_def deep_text_unchanged
        accent_text_unchanged deep_env_def example_env_def env_with_def example_services_def)
qed

text \<open>
  Claim C7, as the code has it.  When the planner answers and the parser raises
  \<open>JSONDecodeError\<close> on the stripped reply, \<open>create_plan\<close> prints two lines and,
  if both are printed, returns the fallback plan, which depends on the query alone:
  the filing researcher (whose task quotes the query) and the market-data step
  without dependencies, the analyst depending on both, the auditor depending on the
  analyst.  An exception of one of the two \<open>print\<close> calls, and any other exception
  of the parser, reaches the caller; a reply that parses is returned as parsed.
\<close>

theorem create_plan_fallback:
  assumes "planner_run S (plan_prompt user_query) = Inr (Some c)"
  shows "(json_loads E (strip_fence (py_strip c)) = Inl JSONDecodeError \<longrightarrow>
            console_print S (''Warning: Could not parse plan JSON: ''
                             @ decode_error_text S (strip_fence (py_strip c))) = None \<longrightarrow>
            console_print S (''Raw content: '' @ take 200 (strip_fence (py_strip c))) = None \<longrightarrow>
            create_plan E S user_query = Inr (fallback_plan user_query))
       \<and> (json_loads E (strip_fence (py_strip c)) = Inl JSONDecodeError \<longrightarrow>
            console_print S (''Warning: Could not parse plan JSON: ''
                             @ decode_error_text S (strip_fence (py_strip c))) = Some e \<longrightarrow>
            create_plan E S user_query = Inl e)
       \<and> (json_loads E (strip_fence (py_strip c)) = Inl JSONDecodeError \<longrightarrow>
            console_print S (''Warning: Could not parse plan JSON: ''
                             @ decode_error_text S (strip_fence (py_strip c))) = None \<longrightarrow>
            console_print S (''Raw content: '' @ take 200 (strip_fence (py_strip c))) = Some e \<longrightarrow>
            create_plan E S user_query = Inl e)
       \<and> (json_loads E (strip_fence (py_strip c)) = Inl e \<longrightarrow> e \<noteq> JSONDecodeError \<longrightarrow>
            create_plan E S user_query = Inl e)
       \<and> (json_loads E (strip_fence (py_strip c)) = Inr plan \<longrightarrow>
            create_plan E S user_query = Inr plan)
       \<and> fallback_plan user_query =
             JObj [(''steps'', JArr
               [JObj [(''agent'', JStr ''sec_researcher''),
                      (''task'', JStr (''Analyze 10-K filings for '' @ user_query)),
                      (''dependencies'', JArr [])],
                JObj [(''agent'', JStr ''market_data''),
                      (''task'', JStr ''Fetch current market data''),
                      (''dependencies'', JArr [])],
                JObj [(''agent'', JStr ''analyst''),
                      (''task'', JStr ''Synthesize analysis''),
                      (''dependencies'', JArr [JStr ''sec_researcher'', JStr ''market_data''])],
                JObj [(''agent'', JStr ''auditor''),
                      (''task'', JStr ''Verify analysis''),
                      (''dependencies'', JArr [JStr ''analyst''])]])]"
proof (intro conjI impI)
  show "fallback_plan user_query =
             JObj [(''steps'', JArr
               [JObj [(''agent'', JStr ''sec_researcher''),
                      (''task'', JStr (''Analyze 10-K filings for '' @ user_query)),
                      (''dependencies'', JArr [])],
                JObj [(''agent'', JStr ''market_data''),
                      (''task'', JStr ''Fetch current market data''),
                      (''dependencies'', JArr [])],
                JObj [(''agent'', JStr ''analyst''),
                      (''task'', JStr ''Synthesize analysis''),
                      (''dependencies'', JArr [JStr ''sec_researcher'', JStr ''market_data''])],
                JObj [(''agent'', JStr ''auditor''),
                      (''task'', JStr ''Verify analysis''),
                      (''dependencies'', JArr [JStr ''analyst''])]])]"
    by (simp add: fallback_plan_def plan_step_def)
next
  assume "json_loads E (strip_fence (py_strip c)) = Inl e" "e \<noteq> JSONDecodeError"
  with assms show "create_plan E S user_query = Inl e"
    by (cases e) (simp_all add: create_plan_def bind_err_def)
qed (use assms in \<open>simp_all add: create_plan_def bind_err_def\<close>)

text \<open>
  Claim C7 at four replies of the planner: prose, which gives the fallback plan; a
  JSON array, which is returned as parsed; a thousand opening brackets; and prose
  that the console cannot encode.
\<close>

theorem create_plan_fallback_witness:
  "create_plan example_env example_services ''Analyze ACME'' = Inr (fallback_plan ''Analyze ACME'')
   \<and> create_plan four_env (services_replying four_text) ''Analyze ACME''
       = Inr (JArr [JStr ''a'', JStr ''b'', JStr ''c'', JStr ''d''])
   \<and> create_plan deep_env (services_replying deep_text) ''Analyze ACME'' = Inl RecursionError
   \<and> create_plan example_env ((services_replying accent_text)\<lparr>console_print := ascii_console\<rparr>)
        ''Analyze ACME'' = Inl UnicodeEncodeError"
proof (intro conjI)
  have p: "planner_run example_services (plan_prompt ''Analyze ACME'')
           = Inr (Some ''Sorry, I cannot help with that.'')"
    by (simp add: example_services_def)
  note t = create_plan_fallback [OF p, THEN conjunct1, rule_format]
  have "json_loads example_env (strip_fence (py_strip ''Sorry, I cannot help with that.''))
        = Inl JSONDecodeError"
    by (simp add: example_env_def env_with_def)
  then show "create_plan example_env example_services ''Analyze ACME''
             = Inr (fallback_plan ''Analyze ACME'')"
    by (rule t) (simp_all add: example_services_def)
next
  have p: "planner_run (services_replying four_text) (plan_prompt ''Analyze ACME'')
           = Inr (Some four_text)"
    by (simp add: services_replying_def)
  have u: "strip_fence (py_strip four_text) = four_text"
    by (simp add: four_text_def py_strip_def strip_fence_def fence_def is_space_def)
  note t = create_plan_fallback [OF p, THEN conjunct2, THEN conjunct2, THEN conjunct2,
      THEN conjunct2, THEN conjunct1, rule_format]
  show "create_plan four_env (services_replying four_text) ''Analyze ACME''
        = Inr (JArr [JStr ''a'', JStr ''b'', JStr ''c'', JStr ''d''])"
    by (rule t) (simp add: u four_env_def env_with_def)
next
  have p: "planner_run (services_replying deep_text) (plan_prompt ''Analyze ACME'')
           = Inr (Some deep_text)"
    by (simp add: services_replying_def)
  note t = create_plan_fallback [OF p, THEN conjunct2, THEN conjunct2, THEN conjunct2,
      THEN conjunct1, rule_format]
  show "create_plan deep_env (services_replying deep_text) ''Analyze ACME'' = Inl RecursionError"
    by (rule t) (simp_all add: deep_text_unchanged deep_env_def env_with_def)
next
  let ?S = "(services_replying accent_text)\<lparr>console_print := ascii_console\<rparr>"
  have p: "planner_run ?S (plan_prompt ''Analyze ACME'') = Inr (Some accent_text)"
    by (simp add: services_replying_def)
  note t = create_plan_fallback [OF p, THEN conjunct2, THEN conjunct2, THEN conjunct1, rule_format]
  show "create_plan example_env ?S ''Analyze ACME'' = Inl UnicodeEncodeError"
  proof (rule t)
    show "json_loads example_env (strip_fence (py_strip accent_text)) = Inl JSONDecodeError"
      by (simp add: example_env_def env_with_def)
    show "console_print ?S (''Warning: Could not parse plan JSON: ''
            @ decode_error_text ?S (strip_fence (py_strip accent_text))) = None"
      by (simp add: services_replying_def example_services_def ascii_console_def)
    show "console_print ?S (''Raw content: '' @ take 200 (strip_fence (py_strip accent_text)))
          = Some UnicodeEncodeError"
      unfolding accent_text_unchanged
      by (simp add: services_replying_def ascii_console_def accent_text_def)
  qed
qed

subsection \<open>Execution of a plan\<close>

lemma step_fields [simp]:
  "py_getitem (plan_step a t deps) ''agent'' = Inr (JStr a)"
  "py_getitem (plan_step a t deps) ''task'' = Inr (JStr t)"
  "py_getitem (plan_step a t deps) ''dependencies'' = Inr (JArr (map JStr deps))"
  by (simp_all add: plan_step_def py_getitem_def)

lemma plan_steps [simp]: "bind_err (py_getitem (plan_of steps) ''steps'') py_iter = Inr steps"
  by (simp add: plan_of_def py_getitem_def py_iter_def bind_err_def)

lemma deps_ready_strings: "deps_ready R (map JStr deps) = Inr (list_all (has_key R) deps)"
  by (induction deps) (simp_all add: dep_in_def)

lemma run_step_plan_step:
  "run_step S st (plan_step a t deps) tick =
     (if list_all (has_key (fst st)) deps then run_agent S st (JStr a) (JStr t) tick
      else (Inr (fst st), snd st))"
  by (simp add: run_step_def bind_err_def py_iter_def deps_ready_strings)

lemma has_key_empty [simp]: "\<not> has_key empty_results k"
  by (simp add: has_key_def empty_results_def)

lemma run_sec_researcher:
  "run_agent S (R, T) (JStr ''sec_researcher'') task tick
     = (Inr (R\<lparr>sec_researcher := Some (sec_run task tick)\<rparr>), T)"
  by (simp add: run_agent_def)

lemma run_market_data:
  "market_run S tick = Inr md \<Longrightarrow>
   run_agent S (R, T) (JStr ''market_data'') task tick = (Inr (R\<lparr>market_data := Some md\<rparr>), T)"
  by (simp add: run_agent_def)






text \<open>The snapshot that the market-data step makes of the example services.\<close>

lemma example_snapshot:
  "market_run example_services ''ACME'' =
     Inr [(''ticker'', MStr ''ACME''),
          (''timestamp'', MStr ''2024-01-01T00:00:00''),
          (''current_price'', MFloat 100),
          (''previous_close'', MNone),
          (''open'', MNone),
          (''market_cap'', MInt 100000000),
          (''shares_outstanding'', MInt 1000000),
          (''52_week_high'', MFloat 120),
          (''52_week_low'', MFloat 80),
          (''pe_ratio'', MNone),
          (''forward_pe'', MNone),
          (''dividend_yield'', MFloat (1 / 100)),
          (''beta'', MNone),
          (''volume'', MNone),
          (''avg_volume'', MNone),
          (''currency'', MStr ''USD''),
          (''exchange'', MNone),
          (''timezone'', MNone),
          (''citation'',
             MCit \<lparr>source_type = ''market_data'', ticker = ''ACME'', year = None,
                   section_name = None, page_range = None,
                   url = ''https://finance.yahoo.com/quote/ACME'',
                   timestamp = Some ''2024-01-01T00:00:00''\<rparr>)]"
  by (simp add: market_run_def get_comprehensive_data_def bind_err_def example_services_def
      Let_def dict_get_def dict_get_default_def example_info_def)










subsection \<open>Steps that run without their upstream output\<close>

text \<open>
  Claim C8 at three plans.  An auditor step that runs when there is no analyst entry
  raises \<open>KeyError\<close>; an analyst step that runs when there is no market-data entry
  raises \<open>TypeError\<close>, also after the filing researcher has run.  The exception ends
  the execution.
\<close>

theorem missing_upstream_raises:
  "execute_plan S T (plan_of [plan_step ''auditor'' t []]) tick = (Inl KeyError, T)
   \<and> execute_plan S T (plan_of [plan_step ''analyst'' t []]) tick = (Inl TypeError, T)
   \<and> execute_plan S T (plan_of [plan_step ''sec_researcher'' t1 [],
                                plan_step ''analyst'' t [''sec_researcher'']]) tick
       = (Inl TypeError, T)"
  by (simp add: execute_plan_def run_step_plan_step run_agent_def
      synthesize_def empty_results_def has_key_def)

text \<open>
  The auditor step tolerates a missing market-data entry: it verifies against the
  empty dictionary, without any arithmetic, and reports the numeric check as failed.
\<close>

lemma auditor_without_market_data:
  assumes "analyst R = Some report" and "market_data R = None"
  shows "run_agent S (R, T) (JStr ''auditor'') task tick =
           (Inr (R\<lparr>auditor := Some
                   \<lparr>citation_check_of = verify_citations report ([] :: Citation list),
                    numeric_check_of =
                      \<lparr>calculations_valid = False, market_cap_error_pct = MNone,
                       calculated = MNone, reported = MNone\<rparr>,
                    claim_check_of = verify_claims report,
                    overall_confidence =
                      of_nat (sum_bools [all_valid (verify_citations report ([] :: Citation list)),
                                         False, True]) / 3\<rparr>\<rparr>), T)"
  using assms
  by (simp add: run_agent_def verify_def verify_numbers_def dict_get_def bind_err_def Let_def
      verify_claims_def)

subsection \<open>The confidence of the auditor\<close>

lemma sum_bools_three: "sum_bools [a, b, True] \<in> {1, 2, 3}"
  by (cases a; cases b) (simp_all add: sum_bools_def)

lemma verify_result:
  "verify A report cites md =
     (case verify_numbers A md of
        Inl e \<Rightarrow> Inl e
      | Inr nc \<Rightarrow>
          Inr \<lparr>citation_check_of = verify_citations report cites,
               numeric_check_of = nc, claim_check_of = verify_claims report,
               overall_confidence =
                 of_nat (sum_bools [all_valid (verify_citations report cites),
                                    calculations_valid nc, True]) / 3\<rparr>)"
  by (simp add: verify_def Let_def bind_err_def verify_claims_def split: sum.splits)

lemma verify_numbers_no_product:
  assumes "\<not> (truthy (dict_get md ''current_price'') \<and> truthy (dict_get md ''shares_outstanding''))"
  shows "verify_numbers A md =
           Inr \<lparr>calculations_valid = False, market_cap_error_pct = MNone,
                calculated = MNone, reported = dict_get md ''market_cap''\<rparr>"
  using assms by (auto simp: verify_numbers_def Let_def bind_err_def)

lemma verify_numbers_product_raises:
  assumes "truthy (dict_get md ''current_price'')" and "truthy (dict_get md ''shares_outstanding'')"
    and "py_mul A (dict_get md ''current_price'') (dict_get md ''shares_outstanding'') = Inl e"
  shows "verify_numbers A md = Inl e"
  using assms by (simp add: verify_numbers_def Let_def bind_err_def)

text \<open>
  Claim C10 as stated fails: \<open>verify\<close> does not return for every market-data
  mapping.  For a float price and a number of shares that is too large for a float,
  the product of the numeric check raises \<open>OverflowError\<close>; for a price given as a
  string, the product is the repeated string and the difference raises
  \<open>TypeError\<close>.
\<close>

theorem verify_raises:
  "verify exact_arith ''All good'' ([] :: Citation list)
     [(''current_price'', MFloat 2), (''shares_outstanding'', MInt (10 ^ 309)),
      (''market_cap'', MInt 1)] = Inl OverflowError
   \<and> verify exact_arith ''All good'' ([] :: Citation list)
     [(''current_price'', MStr ''2.50''), (''shares_outstanding'', MInt 3),
      (''market_cap'', MInt 1)] = Inl TypeError"
  by (simp add: verify_result verify_numbers_def dict_get_def bind_err_def exact_arith_def
      float_op_def float_overflows_def numeral_3_eq_3)

text \<open>
  Claim C10, as the code has it.  The claim check reports no unsupported claim for any report,
  so of the three checks at least one passes: whenever \<open>verify\<close> returns, its
  confidence is 1/3, 2/3 or 1.  \<open>verify\<close> raises exactly when the numeric check
  does, with the same exception, whatever the report and the citations are.  When
  the price or the number of shares is missing or zero, no arithmetic takes place
  and \<open>verify\<close> returns, with the numeric check failed and a confidence of 1/3 or
  2/3; otherwise an exception of the product of price and shares is raised by
  \<open>verify\<close>.
\<close>

theorem verify_confidence:
  "(verify A report cites md = Inr v \<longrightarrow>
      overall_confidence v \<in> {1 / 3, 2 / 3, 1}
      \<and> unsupported_claims (claim_check_of v) = [])
   \<and> unsupported_claims (verify_claims report) = []
   \<and> ((verify A report cites md = Inl e) = (verify_numbers A md = Inl e))
   \<and> (\<not> (truthy (dict_get md ''current_price'') \<and> truthy (dict_get md ''shares_outstanding''))
        \<longrightarrow> (\<exists>w. verify A report cites md = Inr w
                 \<and> \<not> calculations_valid (numeric_check_of w)
                 \<and> overall_confidence w \<in> {1 / 3, 2 / 3}))
   \<and> (truthy (dict_get md ''current_price'') \<longrightarrow> truthy (dict_get md ''shares_outstanding'')
        \<longrightarrow> py_mul A (dict_get md ''current_price'') (dict_get md ''shares_outstanding'') = Inl e
        \<longrightarrow> verify A report cites md = Inl e)"
proof (intro conjI impI)
  assume r: "verify A report cites md = Inr v"
  then obtain nc where v: "v = \<lparr>citation_check_of = verify_citations report cites,
        numeric_check_of = nc, claim_check_of = verify_claims report,
        overall_confidence =
          of_nat (sum_bools [all_valid (verify_citations report cites),
                             calculations_valid nc, True]) / 3\<rparr>"
    by (auto simp: verify_result split: sum.splits)
  from sum_bools_three [of "all_valid (verify_citations report cites)" "calculations_valid nc"]
  show "overall_confidence v \<in> {1 / 3, 2 / 3, 1}"
    unfolding v by auto
  show "unsupported_claims (claim_check_of v) = []"
    unfolding v by (simp add: verify_claims_def)
next
  show "unsupported_claims (verify_claims report) = []"
    by (simp add: verify_claims_def)
  show "(verify A report cites md = Inl e) = (verify_numbers A md = Inl e)"
    by (simp add: verify_result split: sum.splits)
next
  assume "\<not> (truthy (dict_get md ''current_price'') \<and> truthy (dict_get md ''shares_outstanding''))"
  from verify_numbers_no_product [OF this, of A]
  show "\<exists>w. verify A report cites md = Inr w
                 \<and> \<not> calculations_valid (numeric_check_of w)
                 \<and> overall_confidence w \<in> {1 / 3, 2 / 3}"
    by (cases "all_valid (verify_citations report cites)") (simp_all add: verify_result sum_bools_def)
next
  assume "truthy (dict_get md ''current_price'')" "truthy (dict_get md ''shares_outstanding'')"
    "py_mul A (dict_get md ''current_price'') (dict_get md ''shares_outstanding'') = Inl e"
  from verify_numbers_product_raises [OF this]
  show "verify A report cites md = Inl e"
    by (simp add: verify_result)
qed

text \<open>
  Claim C10 at a short report and three snapshots: one whose market capitalisation
  is price times shares, the empty one, and one whose number of shares is too large
  for a float.
\<close>

theorem verify_confidence_witness:
  "(\<exists>v. verify exact_arith ''All good'' ([] :: Citation list)
          [(''current_price'', MFloat 100), (''shares_outstanding'', MInt 1000000),
           (''market_cap'', MInt 100000000)] = Inr v
      \<and> overall_confidence v \<in> {1 / 3, 2 / 3, 1})
   \<and> (\<exists>w. verify exact_arith ''All good'' ([] :: Citation list) [] = Inr w
      \<and> \<not> calculations_valid (numeric_check_of w)
      \<and> overall_confidence w \<in> {1 / 3, 2 / 3})
   \<and> verify exact_arith ''All good'' ([] :: Citation list)
          [(''current_price'', MFloat 2), (''shares_outstanding'', MInt (10 ^ 309)),
           (''market_cap'', MInt 1)] = Inl OverflowError"
proof (intro conjI)
  let ?md = "[(''current_price'', MFloat 100), (''shares_outstanding'', MInt 1000000),
           (''market_cap'', MInt 100000000)]"
  have "\<exists>nc. verify_numbers exact_arith ?md = Inr nc"
    by (simp add: verify_numbers_def dict_get_def bind_err_def exact_arith_def
        float_op_def float_overflows_def exact_less_def)
  then obtain w where w: "verify exact_arith ''All good'' ([] :: Citation list) ?md = Inr w"
    by (auto simp: verify_result)
  with verify_confidence [of exact_arith "''All good''" "[] :: Citation list" ?md w]
  show "\<exists>v. verify exact_arith ''All good'' ([] :: Citation list) ?md = Inr v
      \<and> overall_confidence v \<in> {1 / 3, 2 / 3, 1}"
    by blast
next
  have "\<not> (truthy (dict_get [] ''current_price'') \<and> truthy (dict_get [] ''shares_outstanding''))"
    by (simp add: dict_get_def)
  with verify_confidence [of exact_arith "''All good''" "[] :: Citation list" "[]"]
  show "\<exists>w. verify exact_arith ''All good'' ([] :: Citation list) [] = Inr w
      \<and> \<not> calculations_valid (numeric_check_of w)
      \<and> overall_confidence w \<in> {1 / 3, 2 / 3}"
    by blast
next
  let ?md = "[(''current_price'', MFloat 2), (''shares_outstanding'', MInt (10 ^ 309)),
           (''market_cap'', MInt 1)]"
  have "truthy (dict_get ?md ''current_price'')" "truthy (dict_get ?md ''shares_outstanding'')"
    "py_mul exact_arith (dict_get ?md ''current_price'') (dict_get ?md ''shares_outstanding'')
       = Inl OverflowError"
    by (simp_all add: dict_get_def exact_arith_def float_op_def float_overflows_def bind_err_def)
  with verify_confidence [of exact_arith "''All good''" "[] :: Citation list" ?md _ OverflowError]
  show "verify exact_arith ''All good'' ([] :: Citation list) ?md = Inl OverflowError"
    by blast
qed

subsection \<open>The fallback plan from end to end\<close>

text \<open>
  With both upstream outputs present and a complete snapshot, the analyst step
  returns a report.
\<close>

lemma synthesize_example:
  assumes "market_run example_services ''ACME'' = Inr md"
  shows "\<exists>report T'. synthesize example_services new_tracker (Some (sec_run task ''ACME''))
                        (Some md) ''ACME'' = (Inr report, T')"
proof -
  note md = assms [unfolded example_snapshot, simplified, symmetric]
  have ts: "bind_err (dict_item md ''timestamp'') (py_str example_services)
            = Inr ''2024-01-01T00:00:00''"
    by (simp add: md dict_item_def bind_err_def example_services_def)
  obtain es where es: "generate_executive_summary example_services (Some (sec_run task ''ACME'')) md = Inr es"
    by (simp add: md generate_executive_summary_def dict_get_default_def bind_err_def Let_def
        example_services_def)
  obtain mm c where mm: "format_market_metrics example_services new_tracker md
                       = (Inr mm, add_citation new_tracker ''Current market metrics'' (MCit c))"
    by (simp add: md format_market_metrics_def dict_item_def dict_get_default_def bind_err_def
        example_services_def exact_arith_def float_op_def float_overflows_def)
  obtain ar where ar: "analyze_risks (Some (sec_run task ''ACME'')) ''ACME'' = Inr ar"
    by (simp add: analyze_risks_def sec_run_def)
  obtain fr where fr: "format_for_report (add_citation new_tracker ''Current market metrics'' (MCit c)) = Inr fr"
    by (simp add: format_for_report_def add_citation_def new_tracker_def enumerate1_def Let_def)
  show ?thesis
    by (simp add: synthesize_def ts es mm ar fr Let_def)
qed

lemma verify_example:
  assumes "market_run example_services ''ACME'' = Inr md"
  shows "\<exists>w. verify (arithmetic example_services) report ([] :: Citation list) md = Inr w"
proof -
  note md = assms [unfolded example_snapshot, simplified, symmetric]
  have "\<exists>nc. verify_numbers exact_arith md = Inr nc"
    by (simp add: md verify_numbers_def dict_get_def bind_err_def exact_arith_def
        float_op_def float_overflows_def exact_less_def)
  then show ?thesis
    by (auto simp: verify_def Let_def bind_err_def example_services_def)
qed

text \<open>
  The fallback plan, run with the example services, fills all four entries of the
  result map.
\<close>

lemma fallback_plan_runs:
  "\<exists>R T'. execute_plan example_services new_tracker (fallback_plan q) ''ACME'' = (Inr R, T')
          \<and> has_key R ''sec_researcher'' \<and> has_key R ''market_data''
          \<and> has_key R ''analyst'' \<and> has_key R ''auditor''"
proof -
  let ?S = example_services
  obtain md where md: "market_run ?S ''ACME'' = Inr md"
    by (simp add: example_snapshot)
  from synthesize_example [OF md, of JNull] obtain report T' where
    sy: "synthesize ?S new_tracker (Some (sec_run JNull ''ACME'')) (Some md) ''ACME'' = (Inr report, T')"
    by blast
  from verify_example [OF md] obtain w where
    w: "verify (arithmetic ?S) report ([] :: Citation list) md = Inr w" by blast
  let ?R1 = "empty_results\<lparr>sec_researcher := Some (sec_run JNull ''ACME'')\<rparr>"
  let ?R2 = "?R1\<lparr>market_data := Some md\<rparr>"
  let ?R3 = "?R2\<lparr>analyst := Some report\<rparr>"
  let ?R4 = "?R3\<lparr>auditor := Some w\<rparr>"
  have s1: "\<And>t. run_step ?S (empty_results, new_tracker) (plan_step ''sec_researcher'' t [])
              ''ACME'' = (Inr ?R1, new_tracker)"
    by (simp add: run_step_plan_step run_sec_researcher sec_run_def)
  have s2: "run_step ?S (?R1, new_tracker) (plan_step ''market_data'' ''Fetch current market data'' [])
              ''ACME'' = (Inr ?R2, new_tracker)"
    by (simp add: run_step_plan_step run_market_data [OF md])
  have s3: "run_step ?S (?R2, new_tracker)
              (plan_step ''analyst'' ''Synthesize analysis'' [''sec_researcher'', ''market_data''])
              ''ACME'' = (Inr ?R3, T')"
    using sy by (simp add: run_step_plan_step has_key_def run_agent_def empty_results_def)
  have s4: "run_step ?S (?R3, T') (plan_step ''auditor'' ''Verify analysis'' [''analyst''])
              ''ACME'' = (Inr ?R4, T')"
    using w by (simp add: run_step_plan_step has_key_def run_agent_def empty_results_def)
  have "execute_plan ?S new_tracker (fallback_plan q) ''ACME'' = (Inr ?R4, T')"
    by (simp add: execute_plan_def fallback_plan_def py_getitem_def py_iter_def bind_err_def
        s1 s2 s3 s4)
  then show ?thesis by (simp add: has_key_def)
qed

end
